theory Spec2Isabelle
  imports Complex_Main "HOL-Library.Char_ord" "HOL-Library.List_Lexorder"
begin

section \<open>Data model of dfttktojson.py\<close>

text \<open>
  The script reads documents of a MongoDB collection, hands them to functions of the
  external packages atomate, pymatgen and dfttk, and writes one JSON file. The external
  functions are not part of the repository: they are the fields of the record
  \<open>library\<close> below, each of them fallible. Numbers are only carried from the library
  results into the dataset, never computed with, so \<open>real\<close> stands for Python and
  numpy floats.
\<close>

datatype py_error =
    TypeError
  | KeyError string
  | IndexError
  | ValueError
  | UnboundLocalError string
  | Raised string

text \<open>A Python value as far as \<open>writefile is True\<close> can tell values apart.\<close>

datatype py_value = PyBool bool | PyNone | PyInt int | PyStr string

text \<open>
  A dict with keys that may be absent is a record of options. The \<open>metadata\<close> entry of
  a stored document and the dict built by \<open>update_metadata\<close> have the same keys.
\<close>

record db_sublattice =
  sl_configuration :: "string list list option"
  sl_occupancies :: "real list list option"

record db_metadata =
  md_phase_name :: "string option"
  md_tag :: "string option"
  md_sublattice :: "db_sublattice option"

record ('sd, 'q) db_document =
  doc_metadata :: "db_metadata option"
  doc_structure :: "'sd option"
  doc_qha :: 'q

text \<open>
  What a file opened for writing holds: the JSON text of an object once \<open>json.dump\<close>
  has returned, an unfinished text when it was interrupted.
\<close>

datatype 'ds file_content = Unfinished | Json 'ds

text \<open>
  The world: the MongoDB server (database name, then collection name, to the documents
  in natural order) and the files on disk (file name to content).
\<close>

record ('sd, 'q, 'ds) world =
  mongo :: "string \<Rightarrow> string \<Rightarrow> ('sd, 'q) db_document list"
  files :: "string \<rightharpoonup> 'ds file_content"

text \<open>The dict returned by \<open>get_thermal_props\<close>: property name to a 1-d array.\<close>

type_synonym tprops = "string \<rightharpoonup> real list"

text \<open>The three attributes of a \<open>PRLStructure\<close> that the script reads.\<close>

record prl_structure =
  prl_sublattice_configuration :: "string list list"
  prl_sublattice_occupancies :: "real list list"
  prl_sublattice_site_ratios :: "real list"

text \<open>The value under key \<open>T\<close> of a conditions dict: a number or a list.\<close>

datatype cond_value = Number real | Numbers "real list"

record conds =
  cond_P :: int
  cond_T :: cond_value

text \<open>
  The external functions. \<open>from_db_file\<close> opens the connection described by a
  db.json file and yields the database it is bound to; whatever it does to the server
  is its own business, so it is a state transformer. \<open>get_formation_energy\<close> is one
  Python function called in two shapes: with \<open>idx\<close> it yields a number, with
  \<open>thin\<close> a 1-d array. \<open>open_file\<close> is the builtin \<open>open(name, 'w')\<close>, which may be
  refused by the file system, and \<open>json_dump\<close> the encoder of \<open>json.dump\<close>, which
  refuses objects it cannot serialise.
\<close>

record ('sd, 'st, 'q, 'ds) library =
  from_db_file :: "string \<Rightarrow> ('sd, 'q, 'ds) world
                     \<Rightarrow> (py_error + string) \<times> ('sd, 'q, 'ds) world"
  get_thermal_props :: "('sd, 'q) db_document option \<Rightarrow> py_error + tprops"
  Structure_from_dict :: "'sd \<Rightarrow> py_error + 'st"
  PRLStructure_from_structure :: "'st \<Rightarrow> py_error + prl_structure"
  get_formation_energy_idx ::
    "tprops \<Rightarrow> 'st \<Rightarrow> (string \<rightharpoonup> tprops) \<Rightarrow> string \<Rightarrow> int \<Rightarrow> py_error + real"
  get_formation_energy_thin ::
    "tprops \<Rightarrow> 'st \<Rightarrow> (string \<rightharpoonup> tprops) \<Rightarrow> string \<Rightarrow> int \<Rightarrow> py_error + real list"
  make_dataset ::
    "string \<Rightarrow> string \<Rightarrow> real list \<Rightarrow> string list list list \<Rightarrow> conds
       \<Rightarrow> real list list list \<Rightarrow> real list list list \<Rightarrow> string \<Rightarrow> py_error + 'ds"
  recursive_flatten :: "string list list \<Rightarrow> py_error + string list"
  open_file :: "string \<Rightarrow> ('sd, 'q, 'ds) world \<Rightarrow> py_error + unit"
  json_dump :: "'ds \<Rightarrow> py_error + unit"

section \<open>Python and numpy primitives\<close>

text \<open>Sequencing of fallible steps: the first exception ends the computation.\<close>

definition bind_err :: "py_error + 'a \<Rightarrow> ('a \<Rightarrow> py_error + 'b) \<Rightarrow> py_error + 'b" where
  "bind_err r f = (case r of Inl e \<Rightarrow> Inl e | Inr x \<Rightarrow> f x)"

text \<open>\<open>d[k]\<close> on a dict: KeyError when the key is absent.\<close>

definition subscript :: "string \<Rightarrow> 'a option \<Rightarrow> py_error + 'a" where
  "subscript k v = (case v of None \<Rightarrow> Inl (KeyError k) | Some x \<Rightarrow> Inr x)"

text \<open>Reading a local variable: UnboundLocalError when it was never assigned.\<close>

definition local_var :: "string \<Rightarrow> 'a option \<Rightarrow> py_error + 'a" where
  "local_var k v = (case v of None \<Rightarrow> Inl (UnboundLocalError k) | Some x \<Rightarrow> Inr x)"

text \<open>\<open>a[i]\<close> on a 1-d array: negative indices count from the end.\<close>

definition np_index :: "real list \<Rightarrow> int \<Rightarrow> py_error + real" where
  "np_index xs i =
     (if 0 \<le> i \<and> i < int (length xs) then Inr (xs ! nat i)
      else if i < 0 \<and> - int (length xs) \<le> i then Inr (xs ! nat (int (length xs) + i))
      else Inl IndexError)"

text \<open>\<open>a[::k]\<close> for a positive step.\<close>

fun slice_step :: "nat \<Rightarrow> 'a list \<Rightarrow> 'a list" where
  "slice_step k [] = []"
| "slice_step k (x # xs) = x # slice_step k (drop (k - 1) xs)"

text \<open>\<open>a[:-2]\<close>.\<close>

definition drop_last2 :: "'a list \<Rightarrow> 'a list" where
  "drop_last2 xs = take (length xs - 2) xs"

text \<open>
  \<open>np.array(rows).T[np.newaxis, ...]\<close> on a list of 1-d arrays. Rows of one length
  make a 2-d array; rows of different lengths are refused (ValueError in the numpy
  releases that no longer build object arrays).
\<close>

definition np_array_T_newaxis :: "real list list \<Rightarrow> py_error + real list list list" where
  "np_array_T_newaxis rows =
     (if rows = [] then Inr [[]]
      else if list_all (\<lambda>r. length r = length (hd rows)) rows then Inr [transpose rows]
      else Inl ValueError)"

text \<open>\<open>c.upper()\<close> on ASCII text.\<close>

definition upper_char :: "char \<Rightarrow> char" where
  "upper_char c =
     (if CHR ''a'' \<le> c \<and> c \<le> CHR ''z'' then char_of (of_char c - (32::nat)) else c)"

definition upper :: "string \<Rightarrow> string" where
  "upper s = map upper_char s"

text \<open>\<open>sep.join(xs)\<close>.\<close>

fun join :: "string \<Rightarrow> string list \<Rightarrow> string" where
  "join sep [] = []"
| "join sep [x] = x"
| "join sep (x # y # ys) = x @ sep @ join sep (y # ys)"

section \<open>Queries\<close>

text \<open>\<open>{'metadata.tag': t}\<close>\<close>

definition tag_query :: "string \<Rightarrow> ('sd, 'q) db_document \<Rightarrow> bool" where
  "tag_query t d =
     (case doc_metadata d of None \<Rightarrow> False | Some m \<Rightarrow> md_tag m = Some t)"

text \<open>
  \<open>{'metadata.sublattice.configuration': c, 'metadata.phase_name': p}\<close>
\<close>

definition config_query :: "string list list \<Rightarrow> string \<Rightarrow> ('sd, 'q) db_document \<Rightarrow> bool" where
  "config_query c p d =
     (case doc_metadata d of
        None \<Rightarrow> False
      | Some m \<Rightarrow>
          md_phase_name m = Some p \<and>
          (case md_sublattice m of
             None \<Rightarrow> False
           | Some s \<Rightarrow> sl_configuration s = Some c))"

text \<open>\<open>find_one\<close> yields the first match or None, \<open>find\<close> every match in order.\<close>

definition find_one :: "('d \<Rightarrow> bool) \<Rightarrow> 'd list \<Rightarrow> 'd option" where
  "find_one q coll = List.find q coll"

definition coll_find :: "('d \<Rightarrow> bool) \<Rightarrow> 'd list \<Rightarrow> 'd list" where
  "coll_find q coll = filter q coll"

section \<open>update_metadata\<close>

definition update_metadata ::
  "('sd, 'st, 'q, 'ds) library \<Rightarrow> string \<Rightarrow> string \<Rightarrow> string \<Rightarrow> string
     \<Rightarrow> ('sd, 'q, 'ds) world \<Rightarrow> (py_error + db_metadata) \<times> ('sd, 'q, 'ds) world" where
  "update_metadata lib phase_name metadata_tag db_file collection w =
     (case from_db_file lib db_file w of
        (Inl e, w') \<Rightarrow> (Inl e, w')
      | (Inr vasp_db, w') \<Rightarrow>
          (let result_db = mongo w' vasp_db collection;
               tag_results = find_one (tag_query metadata_tag) result_db
           in (bind_err (case tag_results of
                           None \<Rightarrow> Inl TypeError
                         | Some d \<Rightarrow> subscript ''structure'' (doc_structure d)) (\<lambda>sd.
               bind_err (Structure_from_dict lib sd) (\<lambda>struct.
               bind_err (PRLStructure_from_structure lib struct) (\<lambda>ps.
               Inr \<lparr>md_phase_name = Some phase_name,
                    md_tag = Some metadata_tag,
                    md_sublattice = Some
                      \<lparr>sl_configuration = Some (prl_sublattice_configuration ps),
                       sl_occupancies = Some (prl_sublattice_occupancies ps)\<rparr>\<rparr>))),
               w')))"

section \<open>dfttk_writeto_json\<close>

text \<open>
  The first loop: for every \<open>(el, tag)\<close> of \<open>refstate_tags.items()\<close>, in order,
  the thermal properties of the first document with that tag are stored under \<open>el\<close>.
  The loop variable \<open>tag\<close> outlives the loop; it is None while unassigned.
\<close>

fun refstate_loop ::
  "('sd, 'st, 'q, 'ds) library \<Rightarrow> ('sd, 'q) db_document list \<Rightarrow> (string \<times> string) list
     \<Rightarrow> (string \<rightharpoonup> tprops) \<Rightarrow> string option
     \<Rightarrow> py_error + (string \<rightharpoonup> tprops) \<times> string option" where
  "refstate_loop lib coll [] refstate_energies tg = Inr (refstate_energies, tg)"
| "refstate_loop lib coll ((el, t) # rest) refstate_energies tg =
     (let qha_result = find_one (tag_query t) coll
      in bind_err (get_thermal_props lib qha_result) (\<lambda>tp.
         refstate_loop lib coll rest (refstate_energies(el \<mapsto> tp)) (Some t)))"

text \<open>The local variables that the second loop assigns.\<close>

record loop_state =
  configs :: "string list list list"
  occupancies :: "real list list list"
  hm_values :: "real list"
  sm_values :: "real list"
  cpm_values :: "real list list"
  fixed_temp :: "real option"
  cpm_temps :: "real list option"

definition init_state :: loop_state where
  "init_state =
     \<lparr>configs = [], occupancies = [], hm_values = [], sm_values = [], cpm_values = [],
      fixed_temp = None, cpm_temps = None\<rparr>"

text \<open>One pass of the second loop, for the document \<open>qha_res\<close>.\<close>

definition loop_body ::
  "('sd, 'st, 'q, 'ds) library \<Rightarrow> (string \<rightharpoonup> tprops) \<Rightarrow> int \<Rightarrow> ('sd, 'q) db_document
     \<Rightarrow> loop_state \<Rightarrow> py_error + loop_state" where
  "loop_body lib refstate_energies temperature_index qha_res st =
     bind_err (subscript ''metadata'' (doc_metadata qha_res)) (\<lambda>md.
     bind_err (subscript ''sublattice'' (md_sublattice md)) (\<lambda>sl.
     bind_err (subscript ''configuration'' (sl_configuration sl)) (\<lambda>cfg.
     bind_err (subscript ''occupancies'' (sl_occupancies sl)) (\<lambda>occ.
     bind_err (get_thermal_props lib (Some qha_res)) (\<lambda>tp.
     bind_err (subscript ''structure'' (doc_structure qha_res)) (\<lambda>sd.
     bind_err (Structure_from_dict lib sd) (\<lambda>struct.
     bind_err (get_formation_energy_idx lib tp struct refstate_energies ''HM''
                 temperature_index) (\<lambda>hm_form.
     bind_err (get_formation_energy_idx lib tp struct refstate_energies ''SM''
                 temperature_index) (\<lambda>sm_form.
     bind_err (get_formation_energy_thin lib tp struct refstate_energies ''CPM'' 10)
       (\<lambda>cpm_full.
     let cpm_form = drop_last2 cpm_full in
     bind_err (subscript ''T'' (tp ''T'')) (\<lambda>ts.
     bind_err (np_index ts temperature_index) (\<lambda>ft.
     bind_err (subscript ''T'' (tp ''T'')) (\<lambda>ts'.
     let ct = drop_last2 (slice_step 10 ts') in
     Inr \<lparr>configs = configs st @ [cfg],
          occupancies = occupancies st @ [occ],
          hm_values = hm_values st @ [hm_form],
          sm_values = sm_values st @ [sm_form],
          cpm_values = cpm_values st @ [cpm_form],
          fixed_temp = Some ft,
          cpm_temps = Some ct\<rparr>)))))))))))))"

fun records_loop ::
  "('sd, 'st, 'q, 'ds) library \<Rightarrow> (string \<rightharpoonup> tprops) \<Rightarrow> int \<Rightarrow> ('sd, 'q) db_document list
     \<Rightarrow> loop_state \<Rightarrow> py_error + loop_state" where
  "records_loop lib refstate_energies temperature_index [] st = Inr st"
| "records_loop lib refstate_energies temperature_index (qha_res # rest) st =
     bind_err (loop_body lib refstate_energies temperature_index qha_res st)
       (records_loop lib refstate_energies temperature_index rest)"

text \<open>
  The third loop, over the literal list of \<open>(prop, vals, conds)\<close>. Every pass reads
  the local \<open>tag\<close> and assigns \<open>ds\<close>; \<open>cur\<close> holds the loop variable \<open>prop\<close> and
  \<open>ds\<close> as last assigned.
\<close>

fun make_datasets ::
  "('sd, 'st, 'q, 'ds) library \<Rightarrow> string \<Rightarrow> real list \<Rightarrow> string list list list
     \<Rightarrow> real list list list \<Rightarrow> string option
     \<Rightarrow> (string \<times> real list list list \<times> conds) list \<Rightarrow> (string \<times> 'ds) option
     \<Rightarrow> py_error + (string \<times> 'ds) option" where
  "make_datasets lib phase_name site_ratios cfgs occs tg [] cur = Inr cur"
| "make_datasets lib phase_name site_ratios cfgs occs tg ((prop, vals, cnd) # rest) cur =
     bind_err (local_var ''tag'' tg) (\<lambda>t.
     bind_err (make_dataset lib phase_name prop site_ratios cfgs cnd vals occs t) (\<lambda>ds.
     make_datasets lib phase_name site_ratios cfgs occs tg rest (Some (prop, ds))))"

text \<open>
  Lines 81 to 115: everything between the connection and the file, on the documents
  \<open>coll\<close> of the collection. The result is \<open>comps\<close> and the last \<open>(prop, ds)\<close>.
\<close>

definition build_datasets ::
  "('sd, 'st, 'q, 'ds) library \<Rightarrow> string \<Rightarrow> (string \<times> string) list \<Rightarrow> string list list
     \<Rightarrow> real list \<Rightarrow> int \<Rightarrow> ('sd, 'q) db_document list
     \<Rightarrow> py_error + string list \<times> (string \<times> 'ds) option" where
  "build_datasets lib phase_name refstate_tags configuration_to_find sublattice_site_ratios
       temperature_index coll =
     bind_err (refstate_loop lib coll refstate_tags Map.empty None) (\<lambda>(refstate_energies, tg).
     let fixed_conds = \<lparr>cond_P = 101325, cond_T = Number 0\<rparr>;
         temp_conds = \<lparr>cond_P = 101325, cond_T = Number 0\<rparr> in
     bind_err (records_loop lib refstate_energies temperature_index
                 (coll_find (config_query configuration_to_find phase_name) coll) init_state)
       (\<lambda>st.
     bind_err (local_var ''fixed_temp'' (fixed_temp st)) (\<lambda>ft.
     let fixed_conds = fixed_conds\<lparr>cond_T := Number ft\<rparr> in
     bind_err (local_var ''cpm_temps'' (cpm_temps st)) (\<lambda>ct.
     let temp_conds = temp_conds\<lparr>cond_T := Numbers ct\<rparr>;
         hm = [[hm_values st]];
         sm = [[sm_values st]] in
     bind_err (np_array_T_newaxis (cpm_values st)) (\<lambda>cpm.
     bind_err (recursive_flatten lib configuration_to_find) (\<lambda>flat.
     let comps = map upper (sort flat) in
     bind_err (make_datasets lib phase_name sublattice_site_ratios (configs st)
                 (occupancies st) tg
                 [(''HM_FORM'', hm, fixed_conds), (''SM_FORM'', sm, fixed_conds),
                  (''CPM_FORM'', cpm, temp_conds)] None) (\<lambda>cur.
     Inr (comps, cur))))))))"

text \<open>The name of the file that line 117 opens.\<close>

definition json_name :: "string list \<Rightarrow> string \<Rightarrow> string \<Rightarrow> string" where
  "json_name comps phase_name prop =
     join ''-'' comps @ ''-'' @ phase_name @ ''-'' @ prop @ ''-DFTTK.json''"

text \<open>
  The whole function. Its value is what Python returns: None after the file was
  written, the dataset otherwise. The file is there as soon as \<open>open\<close> has returned,
  so a \<open>json.dump\<close> that raises leaves an unfinished file behind.
\<close>

definition dfttk_writeto_json ::
  "('sd, 'st, 'q, 'ds) library \<Rightarrow> string \<Rightarrow> (string \<times> string) list \<Rightarrow> string list list
     \<Rightarrow> real list \<Rightarrow> string \<Rightarrow> string \<Rightarrow> int \<Rightarrow> py_value \<Rightarrow> ('sd, 'q, 'ds) world
     \<Rightarrow> (py_error + 'ds option) \<times> ('sd, 'q, 'ds) world" where
  "dfttk_writeto_json lib phase_name refstate_tags configuration_to_find
       sublattice_site_ratios db_file collection temperature_index writefile w =
     (case from_db_file lib db_file w of
        (Inl e, w') \<Rightarrow> (Inl e, w')
      | (Inr vasp_db, w') \<Rightarrow>
          (let coll = mongo w' vasp_db collection
           in case build_datasets lib phase_name refstate_tags configuration_to_find
                     sublattice_site_ratios temperature_index coll of
                Inl e \<Rightarrow> (Inl e, w')
              | Inr (comps, cur) \<Rightarrow>
                  if writefile = PyBool True then
                    (case cur of
                       None \<Rightarrow> (Inl (UnboundLocalError ''prop''), w')
                     | Some (prop, ds) \<Rightarrow>
                         (let name = json_name comps phase_name prop
                          in case open_file lib name w' of
                               Inl e \<Rightarrow> (Inl e, w')
                             | Inr fp \<Rightarrow>
                                 (case json_dump lib ds of
                                    Inl e \<Rightarrow>
                                      (Inl e, w'\<lparr>files := (files w')(name \<mapsto> Unfinished)\<rparr>)
                                  | Inr u \<Rightarrow>
                                      (Inr None,
                                       w'\<lparr>files := (files w')(name \<mapsto> Json ds)\<rparr>))))
                  else
                    (case cur of
                       None \<Rightarrow> (Inl (UnboundLocalError ''ds''), w')
                     | Some (prop, ds) \<Rightarrow> (Inr (Some ds), w'))))"

section \<open>A concrete library and database\<close>

text \<open>
  A small instance of the external functions, used to run the model: documents carry
  their thermal properties, the formation quantities are read off them, and
  \<open>make_dataset\<close> returns its arguments as the dataset.
\<close>

record dataset =
  ds_phase_name :: string
  ds_output :: string
  ds_site_ratios :: "real list"
  ds_configurations :: "string list list list"
  ds_conditions :: conds
  ds_values :: "real list list list"
  ds_occupancies :: "real list list list"
  ds_tag :: string

definition example_lib :: "(string, string, tprops, dataset) library" where
  "example_lib =
     \<lparr>from_db_file = (\<lambda>f w. if f = ''db.json'' then (Inr ''dfttk'', w)
                              else (Inl (Raised ''FileNotFoundError''), w)),
      get_thermal_props = (\<lambda>d. case d of None \<Rightarrow> Inl TypeError | Some x \<Rightarrow> Inr (doc_qha x)),
      Structure_from_dict = (\<lambda>s. Inr s),
      PRLStructure_from_structure = (\<lambda>s.
         if s = ''AlNi'' then
           Inr \<lparr>prl_sublattice_configuration = [[''Al''], [''Ni'']],
                prl_sublattice_occupancies = [[1], [1]],
                prl_sublattice_site_ratios = [1, 1]\<rparr>
         else Inl (Raised ''ValueError'')),
      get_formation_energy_idx = (\<lambda>tp s refs prop i.
         bind_err (subscript prop (tp prop)) (\<lambda>xs. np_index xs i)),
      get_formation_energy_thin = (\<lambda>tp s refs prop k.
         bind_err (subscript prop (tp prop)) (\<lambda>xs. Inr (slice_step (nat k) xs))),
      make_dataset = (\<lambda>pn prop ratios cfgs cnd vals occs t.
         Inr \<lparr>ds_phase_name = pn, ds_output = prop, ds_site_ratios = ratios,
              ds_configurations = cfgs, ds_conditions = cnd, ds_values = vals,
              ds_occupancies = occs, ds_tag = t\<rparr>),
      recursive_flatten = (\<lambda>c. Inr (concat c)),
      open_file = (\<lambda>name w. Inr ()),
      json_dump = (\<lambda>ds. Inr ())\<rparr>"

definition example_tprops :: "real \<Rightarrow> tprops" where
  "example_tprops k =
     [''T'' \<mapsto> map (\<lambda>n. 10 * real n) [0..<31],
      ''HM'' \<mapsto> map (\<lambda>n. k + real n) [0..<31],
      ''SM'' \<mapsto> map (\<lambda>n. k * real n) [0..<31],
      ''CPM'' \<mapsto> map (\<lambda>n. k - real n) [0..<31]]"

definition example_doc ::
  "string \<Rightarrow> string \<Rightarrow> string list list \<Rightarrow> string \<Rightarrow> real \<Rightarrow> (string, tprops) db_document" where
  "example_doc t pn cfg s k =
     \<lparr>doc_metadata = Some \<lparr>md_phase_name = Some pn, md_tag = Some t,
         md_sublattice = Some \<lparr>sl_configuration = Some cfg, sl_occupancies = Some [[1], [1]]\<rparr>\<rparr>,
      doc_structure = Some s,
      doc_qha = example_tprops k\<rparr>"

definition example_world :: "(string, tprops, dataset) world" where
  "example_world =
     \<lparr>mongo = (\<lambda>db c. if db = ''dfttk'' \<and> c = ''qha'' then
                  [example_doc ''tag-al'' ''FCC_A1'' [[''Al'']] ''Al'' 1,
                   example_doc ''tag-ni'' ''FCC_A1'' [[''Ni'']] ''Ni'' 2,
                   example_doc ''tag-alni'' ''BCC_B2'' [[''Ni''], [''Al'']] ''AlNi'' 3,
                   example_doc ''tag-alni2'' ''BCC_B2'' [[''Ni''], [''Al'']] ''AlNi'' 4]
                else []),
      files = Map.empty\<rparr>"

text \<open>
  A second connection call: on a server whose database has no \<open>counter\<close> collection
  yet, opening the connection creates it with one document.
\<close>

definition counter_doc :: "(string, tprops) db_document" where
  "counter_doc = \<lparr>doc_metadata = None, doc_structure = None, doc_qha = Map.empty\<rparr>"

definition counting_lib :: "(string, string, tprops, dataset) library" where
  "counting_lib =
     example_lib\<lparr>from_db_file := (\<lambda>f w.
        if f = ''db.json'' then
          (Inr ''dfttk'',
           if mongo w ''dfttk'' ''counter'' = [] then
             w\<lparr>mongo := (\<lambda>db c. if db = ''dfttk'' \<and> c = ''counter'' then [counter_doc]
                               else mongo w db c)\<rparr>
           else w)
        else (Inl (Raised ''FileNotFoundError''), w))\<rparr>"


section \<open>Auxiliary facts\<close>

lemma bind_err_Inl [simp]: "bind_err (Inl e) f = Inl e"
  by (simp add: bind_err_def)

lemma bind_err_Inr [simp]: "bind_err (Inr x) f = f x"
  by (simp add: bind_err_def)

lemma bind_err_Inr_iff: "bind_err r f = Inr y \<longleftrightarrow> (\<exists>x. r = Inr x \<and> f x = Inr y)"
  by (cases r) simp_all

lemma subscript_Inr_iff [simp]: "subscript k v = Inr x \<longleftrightarrow> v = Some x"
  by (cases v) (simp_all add: subscript_def)

lemma local_var_Inr_iff [simp]: "local_var k v = Inr x \<longleftrightarrow> v = Some x"
  by (cases v) (simp_all add: local_var_def)

lemma find_one_Some:
  "find_one q coll = Some d \<Longrightarrow> d \<in> set coll \<and> q d"
  unfolding find_one_def by (auto simp: find_Some_iff)

lemma find_one_exists:
  "\<exists>x\<in>set coll. q x \<Longrightarrow> \<exists>d. find_one q coll = Some d"
  unfolding find_one_def by (cases "List.find q coll") (auto simp: find_None_iff)

lemma loop_body_Inr:
  assumes "loop_body lib en ti d st = Inr st'"
  shows "\<exists>md sl cfg occ tp sd s hm sm full ts ft.
           doc_metadata d = Some md \<and> md_sublattice md = Some sl \<and>
           sl_configuration sl = Some cfg \<and> sl_occupancies sl = Some occ \<and>
           get_thermal_props lib (Some d) = Inr tp \<and>
           doc_structure d = Some sd \<and> Structure_from_dict lib sd = Inr s \<and>
           get_formation_energy_idx lib tp s en ''HM'' ti = Inr hm \<and>
           get_formation_energy_idx lib tp s en ''SM'' ti = Inr sm \<and>
           get_formation_energy_thin lib tp s en ''CPM'' 10 = Inr full \<and>
           tp ''T'' = Some ts \<and> np_index ts ti = Inr ft \<and>
           st' = \<lparr>configs = configs st @ [cfg], occupancies = occupancies st @ [occ],
                  hm_values = hm_values st @ [hm], sm_values = sm_values st @ [sm],
                  cpm_values = cpm_values st @ [drop_last2 full],
                  fixed_temp = Some ft,
                  cpm_temps = Some (drop_last2 (slice_step 10 ts))\<rparr>"
  using assms unfolding loop_body_def Let_def bind_err_Inr_iff subscript_Inr_iff
  by (elim exE conjE) auto


lemma records_loop_Nil_state: "records_loop lib en ti [] st = Inr st' \<Longrightarrow> st' = st"
  by simp

lemma records_loop_field:
  assumes step: "\<And>d st st'. loop_body lib en ti d st = Inr st' \<Longrightarrow> \<exists>v. f st' = f st @ [v] \<and> R d v"
    and run: "records_loop lib en ti docs st = Inr st'"
  shows "\<exists>vs. f st' = f st @ vs \<and> list_all2 R docs vs"
  using run
proof (induction docs arbitrary: st)
  case Nil
  then show ?case by simp
next
  case (Cons d docs)
  from Cons.prems obtain st1 where
    b: "loop_body lib en ti d st = Inr st1" and r: "records_loop lib en ti docs st1 = Inr st'"
    by (auto simp: bind_err_Inr_iff)
  from step [OF b] obtain v where v: "f st1 = f st @ [v]" "R d v" by blast
  from Cons.IH [OF r] obtain vs where vs: "f st' = f st1 @ vs" "list_all2 R docs vs" by blast
  have "f st' = f st @ (v # vs)" using v vs by simp
  moreover have "list_all2 R (d # docs) (v # vs)" using v vs by simp
  ultimately show ?case by blast
qed

lemma records_loop_last:
  assumes "records_loop lib en ti docs st = Inr st'" and "docs \<noteq> []"
  shows "\<exists>tp ts ft. get_thermal_props lib (Some (last docs)) = Inr tp \<and> tp ''T'' = Some ts \<and>
           np_index ts ti = Inr ft \<and> fixed_temp st' = Some ft \<and>
           cpm_temps st' = Some (drop_last2 (slice_step 10 ts))"
  using assms
proof (induction docs arbitrary: st)
  case Nil
  then show ?case by simp
next
  case (Cons d docs)
  from Cons.prems obtain st1 where
    b: "loop_body lib en ti d st = Inr st1" and r: "records_loop lib en ti docs st1 = Inr st'"
    by (auto simp: bind_err_Inr_iff)
  show ?case
  proof (cases "docs = []")
    case True
    with r have "st' = st1" by simp
    with loop_body_Inr [OF b] True show ?thesis by auto
  next
    case False
    with Cons.IH [OF r] show ?thesis by simp
  qed
qed

lemma refstate_loop_tag:
  "refstate_loop lib coll tags en tg = Inr (en', tg') \<Longrightarrow>
     tg' = (if tags = [] then tg else Some (snd (last tags)))"
proof (induction tags arbitrary: en tg)
  case Nil
  then show ?case by simp
next
  case (Cons a tags)
  obtain el t where a: "a = (el, t)" by (cases a)
  from Cons.prems a obtain tp where
    r: "refstate_loop lib coll tags (en(el \<mapsto> tp)) (Some t) = Inr (en', tg')"
    by (auto simp: bind_err_Inr_iff Let_def)
  from Cons.IH [OF r] a show ?case by simp
qed

lemma refstate_loop_other:
  "refstate_loop lib coll tags en tg = Inr (en', tg') \<Longrightarrow> el \<notin> fst ` set tags \<Longrightarrow> en' el = en el"
proof (induction tags arbitrary: en tg)
  case Nil
  then show ?case by simp
next
  case (Cons a tags)
  obtain el0 t where a: "a = (el0, t)" by (cases a)
  from Cons.prems a obtain tp where
    r: "refstate_loop lib coll tags (en(el0 \<mapsto> tp)) (Some t) = Inr (en', tg')"
    by (auto simp: bind_err_Inr_iff Let_def)
  from Cons.prems(2) a have "el \<notin> fst ` set tags" "el \<noteq> el0" by auto
  with Cons.IH [OF r] show ?case by simp
qed

lemma refstate_loop_energies:
  "refstate_loop lib coll tags en tg = Inr (en', tg') \<Longrightarrow> distinct (map fst tags) \<Longrightarrow>
     (el, t) \<in> set tags \<Longrightarrow>
     \<exists>tp. get_thermal_props lib (find_one (tag_query t) coll) = Inr tp \<and> en' el = Some tp"
proof (induction tags arbitrary: en tg)
  case Nil
  then show ?case by simp
next
  case (Cons a tags)
  obtain el0 t0 where a: "a = (el0, t0)" by (cases a)
  from Cons.prems(1) a obtain tp where
    g: "get_thermal_props lib (find_one (tag_query t0) coll) = Inr tp" and
    r: "refstate_loop lib coll tags (en(el0 \<mapsto> tp)) (Some t0) = Inr (en', tg')"
    by (auto simp: bind_err_Inr_iff Let_def)
  show ?case
  proof (cases "(el, t) = (el0, t0)")
    case True
    from Cons.prems(2) a have "el0 \<notin> fst ` set tags" by auto
    from refstate_loop_other [OF r this] have "en' el0 = Some tp" by simp
    with g True show ?thesis by auto
  next
    case False
    with Cons.prems(3) a have "(el, t) \<in> set tags" by auto
    moreover from Cons.prems(2) have "distinct (map fst tags)" by simp
    ultimately show ?thesis using Cons.IH [OF r] by blast
  qed
qed

lemma build_datasets_Inr:
  assumes "build_datasets lib pn tags c ratios ti coll = Inr (comps, cur)"
  shows "\<exists>en t st ft ct cpm flat ds_hm ds_sm ds.
           refstate_loop lib coll tags Map.empty None = Inr (en, Some t) \<and>
           records_loop lib en ti (coll_find (config_query c pn) coll) init_state = Inr st \<and>
           fixed_temp st = Some ft \<and> cpm_temps st = Some ct \<and>
           np_array_T_newaxis (cpm_values st) = Inr cpm \<and>
           recursive_flatten lib c = Inr flat \<and> comps = map upper (sort flat) \<and>
           make_dataset lib pn ''HM_FORM'' ratios (configs st)
             \<lparr>cond_P = 101325, cond_T = Number ft\<rparr> [[hm_values st]] (occupancies st) t = Inr ds_hm \<and>
           make_dataset lib pn ''SM_FORM'' ratios (configs st)
             \<lparr>cond_P = 101325, cond_T = Number ft\<rparr> [[sm_values st]] (occupancies st) t = Inr ds_sm \<and>
           make_dataset lib pn ''CPM_FORM'' ratios (configs st)
             \<lparr>cond_P = 101325, cond_T = Numbers ct\<rparr> cpm (occupancies st) t = Inr ds \<and>
           cur = Some (''CPM_FORM'', ds)"
  using assms unfolding build_datasets_def Let_def bind_err_Inr_iff
  by (elim exE conjE) (auto simp: bind_err_Inr_iff split: prod.splits)

lemma dfttk_writeto_json_Inr:
  assumes "fst (dfttk_writeto_json lib pn tags c ratios f coll_name ti wr w) = Inr r"
  shows "\<exists>db comps ds.
           fst (from_db_file lib f w) = Inr db \<and>
           build_datasets lib pn tags c ratios ti (mongo (snd (from_db_file lib f w)) db coll_name)
             = Inr (comps, Some (''CPM_FORM'', ds)) \<and>
           (if wr = PyBool True
            then r = None \<and>
                 open_file lib (json_name comps pn ''CPM_FORM'') (snd (from_db_file lib f w))
                   = Inr () \<and>
                 json_dump lib ds = Inr () \<and>
                 snd (dfttk_writeto_json lib pn tags c ratios f coll_name ti wr w) =
                   (snd (from_db_file lib f w))
                     \<lparr>files := (files (snd (from_db_file lib f w)))
                        (json_name comps pn ''CPM_FORM'' \<mapsto> Json ds)\<rparr>
            else r = Some ds \<and>
                 snd (dfttk_writeto_json lib pn tags c ratios f coll_name ti wr w) =
                   snd (from_db_file lib f w))"
proof -
  obtain r0 w' where c0: "from_db_file lib f w = (r0, w')" by (cases "from_db_file lib f w")
  from assms c0 obtain db where r0: "r0 = Inr db"
    by (cases r0) (auto simp: dfttk_writeto_json_def)
  let ?b = "build_datasets lib pn tags c ratios ti (mongo w' db coll_name)"
  from assms c0 r0 obtain comps cur where b: "?b = Inr (comps, cur)"
    by (cases ?b) (auto simp: dfttk_writeto_json_def Let_def)
  from build_datasets_Inr [OF b] obtain ds where cur: "cur = Some (''CPM_FORM'', ds)" by blast
  show ?thesis using assms c0 r0 b cur
    by (auto simp: dfttk_writeto_json_def Let_def split: sum.splits)
qed


lemma refstate_loop_total:
  "\<forall>(el, t)\<in>set tags. \<exists>tp. get_thermal_props lib (find_one (tag_query t) coll) = Inr tp \<Longrightarrow>
     \<exists>en' tg'. refstate_loop lib coll tags en tg = Inr (en', tg')"
proof (induction tags arbitrary: en tg)
  case Nil
  then show ?case by simp
next
  case (Cons a tags)
  obtain el t where a: "a = (el, t)" by (cases a)
  from Cons.prems a obtain tp where
    g: "get_thermal_props lib (find_one (tag_query t) coll) = Inr tp" by auto
  from Cons.prems have "\<forall>(el, t)\<in>set tags. \<exists>tp. get_thermal_props lib (find_one (tag_query t) coll) = Inr tp"
    by simp
  from Cons.IH [OF this] obtain en' tg' where
    "refstate_loop lib coll tags (en(el \<mapsto> tp)) (Some t) = Inr (en', tg')" by blast
  with a g show ?case by (simp add: Let_def)
qed

lemma dfttk_writeto_json_success:
  assumes "fst (dfttk_writeto_json lib pn tags c ratios f cn ti wr w) = Inr r"
  obtains db en t st ft ct cpm flat ds_hm ds_sm ds where
    "fst (from_db_file lib f w) = Inr db"
    "refstate_loop lib (mongo (snd (from_db_file lib f w)) db cn) tags Map.empty None
       = Inr (en, Some t)"
    "records_loop lib en ti
       (coll_find (config_query c pn) (mongo (snd (from_db_file lib f w)) db cn)) init_state
       = Inr st"
    "fixed_temp st = Some ft" "cpm_temps st = Some ct"
    "np_array_T_newaxis (cpm_values st) = Inr cpm"
    "recursive_flatten lib c = Inr flat"
    "make_dataset lib pn ''HM_FORM'' ratios (configs st)
       \<lparr>cond_P = 101325, cond_T = Number ft\<rparr> [[hm_values st]] (occupancies st) t = Inr ds_hm"
    "make_dataset lib pn ''SM_FORM'' ratios (configs st)
       \<lparr>cond_P = 101325, cond_T = Number ft\<rparr> [[sm_values st]] (occupancies st) t = Inr ds_sm"
    "make_dataset lib pn ''CPM_FORM'' ratios (configs st)
       \<lparr>cond_P = 101325, cond_T = Numbers ct\<rparr> cpm (occupancies st) t = Inr ds"
    "wr = PyBool True \<Longrightarrow> r = None"
    "wr = PyBool True \<Longrightarrow>
       snd (dfttk_writeto_json lib pn tags c ratios f cn ti wr w) =
         (snd (from_db_file lib f w))
           \<lparr>files := (files (snd (from_db_file lib f w)))
              (json_name (map upper (sort flat)) pn ''CPM_FORM'' \<mapsto> Json ds)\<rparr>"
    "wr \<noteq> PyBool True \<Longrightarrow> r = Some ds"
    "wr \<noteq> PyBool True \<Longrightarrow>
       snd (dfttk_writeto_json lib pn tags c ratios f cn ti wr w) = snd (from_db_file lib f w)"
    "wr = PyBool True \<Longrightarrow>
       open_file lib (json_name (map upper (sort flat)) pn ''CPM_FORM'')
         (snd (from_db_file lib f w)) = Inr ()"
    "wr = PyBool True \<Longrightarrow> json_dump lib ds = Inr ()"
proof -
  let ?w' = "snd (from_db_file lib f w)"
  let ?res = "dfttk_writeto_json lib pn tags c ratios f cn ti wr w"
  from dfttk_writeto_json_Inr [OF assms] obtain db comps ds where
    db: "fst (from_db_file lib f w) = Inr db" and
    b: "build_datasets lib pn tags c ratios ti (mongo ?w' db cn)
          = Inr (comps, Some (''CPM_FORM'', ds))" and
    fin: "if wr = PyBool True
            then r = None \<and>
                 open_file lib (json_name comps pn ''CPM_FORM'') ?w' = Inr () \<and>
                 json_dump lib ds = Inr () \<and>
                 snd ?res =
                   ?w'\<lparr>files := (files ?w')(json_name comps pn ''CPM_FORM'' \<mapsto> Json ds)\<rparr>
            else r = Some ds \<and> snd ?res = ?w'"
    by (elim exE conjE) (rule that, assumption+)
  from build_datasets_Inr [OF b] obtain en t st ft ct cpm flat ds_hm ds_sm ds' where
    l1: "refstate_loop lib (mongo ?w' db cn) tags Map.empty None = Inr (en, Some t)" and
    l2: "records_loop lib en ti (coll_find (config_query c pn) (mongo ?w' db cn)) init_state
           = Inr st" and
    l3: "fixed_temp st = Some ft" and l4: "cpm_temps st = Some ct" and
    l5: "np_array_T_newaxis (cpm_values st) = Inr cpm" and
    l6: "recursive_flatten lib c = Inr flat" and l7: "comps = map upper (sort flat)" and
    l8: "make_dataset lib pn ''HM_FORM'' ratios (configs st)
       \<lparr>cond_P = 101325, cond_T = Number ft\<rparr> [[hm_values st]] (occupancies st) t = Inr ds_hm" and
    l9: "make_dataset lib pn ''SM_FORM'' ratios (configs st)
       \<lparr>cond_P = 101325, cond_T = Number ft\<rparr> [[sm_values st]] (occupancies st) t = Inr ds_sm" and
    l10: "make_dataset lib pn ''CPM_FORM'' ratios (configs st)
       \<lparr>cond_P = 101325, cond_T = Numbers ct\<rparr> cpm (occupancies st) t = Inr ds'" and
    l11: "Some (''CPM_FORM'', ds) = Some (''CPM_FORM'', ds')"
    by (elim exE conjE) (rule that, assumption+)
  from l11 have dd: "ds' = ds" by simp
  have w1: "r = None" if "wr = PyBool True" using fin that by simp
  have w2: "snd ?res = ?w'\<lparr>files := (files ?w')
              (json_name (map upper (sort flat)) pn ''CPM_FORM'' \<mapsto> Json ds)\<rparr>"
    if "wr = PyBool True" using fin that l7 by simp
  have w5: "open_file lib (json_name (map upper (sort flat)) pn ''CPM_FORM'') ?w' = Inr ()"
    if "wr = PyBool True" using fin that l7 by simp
  have w6: "json_dump lib ds = Inr ()" if "wr = PyBool True" using fin that by simp
  have w3: "r = Some ds" if "wr \<noteq> PyBool True" using fin that by simp
  have w4: "snd ?res = ?w'" if "wr \<noteq> PyBool True" using fin that by simp
  show thesis
    by (rule that [OF db l1 l2 l3 l4 l5 l6 l8 l9 l10 [unfolded dd] w1 w2 w3 w4 w5 w6])
qed

lemma records_loop_nonempty:
  assumes "records_loop lib en ti docs init_state = Inr st" and "fixed_temp st = Some ft"
  shows "docs \<noteq> []"
proof
  assume "docs = []"
  with assms(1) have "st = init_state" by simp
  with assms(2) show False by (simp add: init_state_def)
qed

lemma np_array_T_newaxis_Inr:
  assumes "np_array_T_newaxis rows = Inr a" and "rows \<noteq> []"
  shows "a = [transpose rows] \<and> list_all (\<lambda>r. length r = length (hd rows)) rows"
proof -
  from assms have "list_all (\<lambda>r. length r = length (hd rows)) rows"
    by (simp add: np_array_T_newaxis_def split: if_splits)
  moreover from assms have "a = [transpose rows]"
    by (simp add: np_array_T_newaxis_def split: if_splits)
  ultimately show ?thesis by (rule conjI [rotated])
qed

section \<open>update_metadata: the returned dict\<close>

text \<open>
  Claim C2. When the connection succeeds and the collection holds a record whose
  \<open>metadata.tag\<close> is \<open>metadata_tag\<close>, the query picks a record \<open>d\<close> with that tag
  (the first one), and whenever \<open>d\<close> stores a structure that
  \<open>Structure.from_dict\<close> and \<open>PRLStructure.from_structure\<close> accept,
  \<open>update_metadata\<close> returns the dict with \<open>phase_name\<close> and \<open>tag\<close> as given and
  the sublattice configuration and occupancies of the PRLStructure of that structure.
\<close>

theorem update_metadata_result:
  assumes "from_db_file lib db_file w = (Inr vasp_db, w')"
    and "x \<in> set (mongo w' vasp_db collection)"
    and "doc_metadata x = Some m" and "md_tag m = Some metadata_tag"
  shows "\<exists>d md. find_one (tag_query metadata_tag) (mongo w' vasp_db collection) = Some d \<and>
           d \<in> set (mongo w' vasp_db collection) \<and>
           doc_metadata d = Some md \<and> md_tag md = Some metadata_tag \<and>
           (\<forall>sd struct ps.
              doc_structure d = Some sd \<longrightarrow>
              Structure_from_dict lib sd = Inr struct \<longrightarrow>
              PRLStructure_from_structure lib struct = Inr ps \<longrightarrow>
              update_metadata lib phase_name metadata_tag db_file collection w =
                (Inr \<lparr>md_phase_name = Some phase_name,
                      md_tag = Some metadata_tag,
                      md_sublattice = Some
                        \<lparr>sl_configuration = Some (prl_sublattice_configuration ps),
                         sl_occupancies = Some (prl_sublattice_occupancies ps)\<rparr>\<rparr>, w'))"
proof -
  let ?coll = "mongo w' vasp_db collection"
  from assms(3,4) have "tag_query metadata_tag x"
    by (simp add: tag_query_def)
  with assms(2) have "\<exists>x\<in>set ?coll. tag_query metadata_tag x" by blast
  from find_one_exists [OF this] obtain d where
    d: "find_one (tag_query metadata_tag) ?coll = Some d" by blast
  from find_one_Some [OF d] have mem: "d \<in> set ?coll" and q: "tag_query metadata_tag d"
    by simp_all
  from q obtain md where md: "doc_metadata d = Some md" "md_tag md = Some metadata_tag"
    by (auto simp: tag_query_def split: option.splits)
  have "update_metadata lib phase_name metadata_tag db_file collection w =
          (Inr \<lparr>md_phase_name = Some phase_name, md_tag = Some metadata_tag,
                md_sublattice = Some
                  \<lparr>sl_configuration = Some (prl_sublattice_configuration ps),
                   sl_occupancies = Some (prl_sublattice_occupancies ps)\<rparr>\<rparr>, w')"
    if "doc_structure d = Some sd" "Structure_from_dict lib sd = Inr struct"
      "PRLStructure_from_structure lib struct = Inr ps" for sd struct ps
    using that assms(1) d by (simp add: update_metadata_def Let_def subscript_def)
  with d mem md show ?thesis by blast
qed

theorem update_metadata_result_witness:
  "from_db_file example_lib ''db.json'' example_world = (Inr ''dfttk'', example_world) \<and>
   update_metadata example_lib ''BCC_B2'' ''tag-alni'' ''db.json'' ''qha'' example_world =
     (Inr \<lparr>md_phase_name = Some ''BCC_B2'', md_tag = Some ''tag-alni'',
           md_sublattice = Some \<lparr>sl_configuration = Some [[''Al''], [''Ni'']],
                                  sl_occupancies = Some [[1], [1]]\<rparr>\<rparr>, example_world)"
proof -
  let ?x = "example_doc ''tag-alni'' ''BCC_B2'' [[''Ni''], [''Al'']] ''AlNi'' 3"
  let ?m = "\<lparr>md_phase_name = Some ''BCC_B2'', md_tag = Some ''tag-alni'',
             md_sublattice = Some \<lparr>sl_configuration = Some [[''Ni''], [''Al'']],
                                    sl_occupancies = Some [[1], [1]]\<rparr>\<rparr>"
  have h1: "from_db_file example_lib ''db.json'' example_world = (Inr ''dfttk'', example_world)"
    by (simp add: example_lib_def)
  have h2: "?x \<in> set (mongo example_world ''dfttk'' ''qha'')"
    by (simp add: example_world_def)
  have h3: "doc_metadata ?x = Some ?m" by (simp add: example_doc_def)
  have h4: "md_tag ?m = Some ''tag-alni''" by simp
  from update_metadata_result [OF h1 h2 h3 h4, of "''BCC_B2''"] obtain d where
    d: "find_one (tag_query ''tag-alni'') (mongo example_world ''dfttk'' ''qha'') = Some d" and
    imp: "\<And>sd struct ps. doc_structure d = Some sd \<Longrightarrow>
              Structure_from_dict example_lib sd = Inr struct \<Longrightarrow>
              PRLStructure_from_structure example_lib struct = Inr ps \<Longrightarrow>
              update_metadata example_lib ''BCC_B2'' ''tag-alni'' ''db.json'' ''qha'' example_world =
                (Inr \<lparr>md_phase_name = Some ''BCC_B2'',
                      md_tag = Some ''tag-alni'',
                      md_sublattice = Some
                        \<lparr>sl_configuration = Some (prl_sublattice_configuration ps),
                         sl_occupancies = Some (prl_sublattice_occupancies ps)\<rparr>\<rparr>, example_world)"
    by blast
  have "find_one (tag_query ''tag-alni'') (mongo example_world ''dfttk'' ''qha'') = Some ?x"
    by (simp add: find_one_def tag_query_def example_world_def example_doc_def)
  with d have dx: "d = ?x" by simp
  have s1: "doc_structure d = Some ''AlNi''" by (simp add: dx example_doc_def)
  have s2: "Structure_from_dict example_lib ''AlNi'' = Inr ''AlNi''" by (simp add: example_lib_def)
  have s3: "PRLStructure_from_structure example_lib ''AlNi'' =
              Inr \<lparr>prl_sublattice_configuration = [[''Al''], [''Ni'']],
                   prl_sublattice_occupancies = [[1], [1]],
                   prl_sublattice_site_ratios = [1, 1]\<rparr>"
    by (simp add: example_lib_def)
  from imp [OF s1 s2 s3] h1 show ?thesis by simp
qed

section \<open>update_metadata: no write of its own\<close>

text \<open>
  Claim C9, as amended. \<open>update_metadata\<close> issues no write of its own: on every
  path, the failing ones included, the world after the call is the world as the
  connection call \<open>VaspCalcDb.from_db_file\<close> of line 36 left it. So the database is the
  same before and after the call exactly when opening the connection leaves it the
  same.
\<close>

theorem update_metadata_adds_no_write:
  "snd (update_metadata lib phase_name metadata_tag db_file collection w) =
     snd (from_db_file lib db_file w) \<and>
   (mongo (snd (update_metadata lib phase_name metadata_tag db_file collection w)) = mongo w) =
   (mongo (snd (from_db_file lib db_file w)) = mongo w)"
proof -
  have "snd (update_metadata lib phase_name metadata_tag db_file collection w) =
          snd (from_db_file lib db_file w)"
    by (simp add: update_metadata_def Let_def split: prod.splits sum.splits)
  then show ?thesis by simp
qed

text \<open>
  Claim C9 as first stated, that the database is the same before and after every
  call, fails: the connection call belongs to \<open>update_metadata\<close>, and with a connection
  that creates the \<open>counter\<close> collection the call succeeds and leaves a database
  that differs from the one it started on.
\<close>

theorem update_metadata_database_changed:
  "fst (update_metadata counting_lib ''BCC_B2'' ''tag-alni'' ''db.json'' ''qha'' example_world) =
     Inr \<lparr>md_phase_name = Some ''BCC_B2'', md_tag = Some ''tag-alni'',
          md_sublattice = Some \<lparr>sl_configuration = Some [[''Al''], [''Ni'']],
                                 sl_occupancies = Some [[1], [1]]\<rparr>\<rparr> \<and>
   mongo example_world ''dfttk'' ''counter'' = [] \<and>
   mongo (snd (update_metadata counting_lib ''BCC_B2'' ''tag-alni'' ''db.json'' ''qha''
     example_world)) ''dfttk'' ''counter'' = [counter_doc] \<and>
   mongo (snd (update_metadata counting_lib ''BCC_B2'' ''tag-alni'' ''db.json'' ''qha''
     example_world)) \<noteq> mongo example_world"
proof -
  have r: "fst (update_metadata counting_lib ''BCC_B2'' ''tag-alni'' ''db.json'' ''qha''
             example_world) =
     Inr \<lparr>md_phase_name = Some ''BCC_B2'', md_tag = Some ''tag-alni'',
          md_sublattice = Some \<lparr>sl_configuration = Some [[''Al''], [''Ni'']],
                                 sl_occupancies = Some [[1], [1]]\<rparr>\<rparr>"
    by code_simp
  have before: "mongo example_world ''dfttk'' ''counter'' = []"
    by (simp add: example_world_def)
  have after: "mongo (snd (update_metadata counting_lib ''BCC_B2'' ''tag-alni'' ''db.json''
      ''qha'' example_world)) ''dfttk'' ''counter'' = [counter_doc]"
    by (simp add: update_metadata_def counting_lib_def example_world_def Let_def)
  have "mongo (snd (update_metadata counting_lib ''BCC_B2'' ''tag-alni'' ''db.json'' ''qha''
     example_world)) \<noteq> mongo example_world"
  proof
    assume "mongo (snd (update_metadata counting_lib ''BCC_B2'' ''tag-alni'' ''db.json'' ''qha''
     example_world)) = mongo example_world"
    with before after show False by simp
  qed
  with r before after show ?thesis by (intro conjI)
qed

section \<open>dfttk_writeto_json: no matching record\<close>

text \<open>
  Claim C8. When the connection succeeds and no document of the collection matches
  both \<open>configuration_to_find\<close> and \<open>phase_name\<close>, \<open>dfttk_writeto_json\<close> raises
  an error and leaves the world as the connection call left it: no dataset is produced
  and no file is written. When moreover every reference lookup of the first loop
  succeeds, the error is the UnboundLocalError of \<open>fixed_temp\<close>, which the loop body
  never assigned.
\<close>

theorem no_matching_record_raises:
  assumes "from_db_file lib db_file w = (Inr vasp_db, w')"
    and "\<forall>d\<in>set (mongo w' vasp_db collection).
           \<not> config_query configuration_to_find phase_name d"
  shows "(\<exists>e. dfttk_writeto_json lib phase_name refstate_tags configuration_to_find
                 site_ratios db_file collection temperature_index writefile w = (Inl e, w')) \<and>
         ((\<forall>(el, t)\<in>set refstate_tags.
             \<exists>tp. get_thermal_props lib
                     (find_one (tag_query t) (mongo w' vasp_db collection)) = Inr tp) \<longrightarrow>
          dfttk_writeto_json lib phase_name refstate_tags configuration_to_find
            site_ratios db_file collection temperature_index writefile w =
            (Inl (UnboundLocalError ''fixed_temp''), w'))"
proof -
  let ?coll = "mongo w' vasp_db collection"
  let ?b = "build_datasets lib phase_name refstate_tags configuration_to_find site_ratios
              temperature_index ?coll"
  from assms(2) have nil: "coll_find (config_query configuration_to_find phase_name) ?coll = []"
    by (simp add: coll_find_def filter_empty_conv)
  have top: "dfttk_writeto_json lib phase_name refstate_tags configuration_to_find
               site_ratios db_file collection temperature_index writefile w = (Inl e, w')"
    if "?b = Inl e" for e
    using that assms(1) by (simp add: dfttk_writeto_json_def)
  have after: "?b = Inl (UnboundLocalError ''fixed_temp'')"
    if "refstate_loop lib ?coll refstate_tags Map.empty None = Inr p" for p
    using that nil
    by (cases p) (simp add: build_datasets_def init_state_def local_var_def)
  have "\<exists>e. ?b = Inl e"
  proof (cases "refstate_loop lib ?coll refstate_tags Map.empty None")
    case (Inl e)
    then show ?thesis by (simp add: build_datasets_def)
  next
    case (Inr p)
    from after [OF this] show ?thesis by blast
  qed
  with top have first: "\<exists>e. dfttk_writeto_json lib phase_name refstate_tags configuration_to_find
                 site_ratios db_file collection temperature_index writefile w = (Inl e, w')"
    by blast
  have second: "dfttk_writeto_json lib phase_name refstate_tags configuration_to_find
            site_ratios db_file collection temperature_index writefile w =
            (Inl (UnboundLocalError ''fixed_temp''), w')"
    if "\<forall>(el, t)\<in>set refstate_tags.
             \<exists>tp. get_thermal_props lib (find_one (tag_query t) ?coll) = Inr tp"
  proof -
    from refstate_loop_total [OF that] obtain en' tg' where
      "refstate_loop lib ?coll refstate_tags Map.empty None = Inr (en', tg')" by blast
    from top [OF after [OF this]] show ?thesis .
  qed
  from first second show ?thesis by blast
qed

theorem no_matching_record_raises_witness:
  "dfttk_writeto_json example_lib ''SIGMA'' [(''Al'', ''tag-al''), (''Ni'', ''tag-ni'')]
     [[''Ni''], [''Al'']] [1, 1] ''db.json'' ''qha'' 30 (PyBool True) example_world =
     (Inl (UnboundLocalError ''fixed_temp''), example_world)"
proof -
  have h1: "from_db_file example_lib ''db.json'' example_world = (Inr ''dfttk'', example_world)"
    by (simp add: example_lib_def)
  have h2: "\<forall>d\<in>set (mongo example_world ''dfttk'' ''qha'').
              \<not> config_query [[''Ni''], [''Al'']] ''SIGMA'' d"
    by (simp add: example_world_def example_doc_def config_query_def)
  have h3: "\<forall>(el, t)\<in>set [(''Al'', ''tag-al''), (''Ni'', ''tag-ni'')].
              \<exists>tp. get_thermal_props example_lib
                (find_one (tag_query t) (mongo example_world ''dfttk'' ''qha'')) = Inr tp"
    by (simp add: example_lib_def example_world_def example_doc_def find_one_def tag_query_def)
  from no_matching_record_raises [OF h1 h2] h3 show ?thesis by blast
qed

section \<open>What the second loop collects\<close>

lemma records_loop_configs:
  assumes "records_loop lib en ti docs init_state = Inr st"
  shows "list_all2 (\<lambda>d cfg. \<exists>m s. doc_metadata d = Some m \<and> md_sublattice m = Some s \<and>
                      sl_configuration s = Some cfg) docs (configs st)"
proof -
  have "\<exists>v. configs st2 = configs st1 @ [v] \<and>
          (\<exists>m s. doc_metadata d = Some m \<and> md_sublattice m = Some s \<and> sl_configuration s = Some v)"
    if "loop_body lib en ti d st1 = Inr st2" for d st1 st2
    using loop_body_Inr [OF that] by (elim exE conjE) simp
  from records_loop_field [of lib en ti configs _ docs init_state st, OF this assms]
  show ?thesis by (simp add: init_state_def)
qed

lemma records_loop_occupancies:
  assumes "records_loop lib en ti docs init_state = Inr st"
  shows "list_all2 (\<lambda>d occ. \<exists>m s. doc_metadata d = Some m \<and> md_sublattice m = Some s \<and>
                      sl_occupancies s = Some occ) docs (occupancies st)"
proof -
  have "\<exists>v. occupancies st2 = occupancies st1 @ [v] \<and>
          (\<exists>m s. doc_metadata d = Some m \<and> md_sublattice m = Some s \<and> sl_occupancies s = Some v)"
    if "loop_body lib en ti d st1 = Inr st2" for d st1 st2
    using loop_body_Inr [OF that] by (elim exE conjE) simp
  from records_loop_field [of lib en ti occupancies _ docs init_state st, OF this assms]
  show ?thesis by (simp add: init_state_def)
qed

lemma records_loop_hm_values:
  assumes "records_loop lib en ti docs init_state = Inr st"
  shows "list_all2 (\<lambda>d v. \<exists>tp sd s. get_thermal_props lib (Some d) = Inr tp \<and>
                      doc_structure d = Some sd \<and> Structure_from_dict lib sd = Inr s \<and>
                      get_formation_energy_idx lib tp s en ''HM'' ti = Inr v) docs (hm_values st)"
proof -
  have "\<exists>v. hm_values st2 = hm_values st1 @ [v] \<and>
          (\<exists>tp sd s. get_thermal_props lib (Some d) = Inr tp \<and>
                      doc_structure d = Some sd \<and> Structure_from_dict lib sd = Inr s \<and>
                      get_formation_energy_idx lib tp s en ''HM'' ti = Inr v)"
    if "loop_body lib en ti d st1 = Inr st2" for d st1 st2
    using loop_body_Inr [OF that] by (elim exE conjE) simp
  from records_loop_field [of lib en ti hm_values _ docs init_state st, OF this assms]
  show ?thesis by (simp add: init_state_def)
qed

lemma records_loop_sm_values:
  assumes "records_loop lib en ti docs init_state = Inr st"
  shows "list_all2 (\<lambda>d v. \<exists>tp sd s. get_thermal_props lib (Some d) = Inr tp \<and>
                      doc_structure d = Some sd \<and> Structure_from_dict lib sd = Inr s \<and>
                      get_formation_energy_idx lib tp s en ''SM'' ti = Inr v) docs (sm_values st)"
proof -
  have "\<exists>v. sm_values st2 = sm_values st1 @ [v] \<and>
          (\<exists>tp sd s. get_thermal_props lib (Some d) = Inr tp \<and>
                      doc_structure d = Some sd \<and> Structure_from_dict lib sd = Inr s \<and>
                      get_formation_energy_idx lib tp s en ''SM'' ti = Inr v)"
    if "loop_body lib en ti d st1 = Inr st2" for d st1 st2
    using loop_body_Inr [OF that] by (elim exE conjE) simp
  from records_loop_field [of lib en ti sm_values _ docs init_state st, OF this assms]
  show ?thesis by (simp add: init_state_def)
qed

lemma records_loop_cpm_values:
  assumes "records_loop lib en ti docs init_state = Inr st"
  shows "list_all2 (\<lambda>d v. \<exists>tp sd s full. get_thermal_props lib (Some d) = Inr tp \<and>
                      doc_structure d = Some sd \<and> Structure_from_dict lib sd = Inr s \<and>
                      get_formation_energy_thin lib tp s en ''CPM'' 10 = Inr full \<and>
                      v = drop_last2 full) docs (cpm_values st)"
proof -
  have "\<exists>v. cpm_values st2 = cpm_values st1 @ [v] \<and>
          (\<exists>tp sd s full. get_thermal_props lib (Some d) = Inr tp \<and>
                      doc_structure d = Some sd \<and> Structure_from_dict lib sd = Inr s \<and>
                      get_formation_energy_thin lib tp s en ''CPM'' 10 = Inr full \<and>
                      v = drop_last2 full)"
    if "loop_body lib en ti d st1 = Inr st2" for d st1 st2
    using loop_body_Inr [OF that] by (elim exE conjE) simp
  from records_loop_field [of lib en ti cpm_values _ docs init_state st, OF this assms]
  show ?thesis by (simp add: init_state_def)
qed

section \<open>A run of the concrete instance\<close>

lemma example_connect: "fst (from_db_file example_lib ''db.json'' example_world) = Inr ''dfttk''"
  by (simp add: example_lib_def)

lemma example_run:
  "fst (dfttk_writeto_json example_lib ''BCC_B2'' [(''Al'', ''tag-al''), (''Ni'', ''tag-ni'')]
         [[''Ni''], [''Al'']] [1, 1] ''db.json'' ''qha'' 30 (PyBool False) example_world) =
   Inr (Some
     \<lparr>ds_phase_name = ''BCC_B2'', ds_output = ''CPM_FORM'', ds_site_ratios = [1, 1],
      ds_configurations = [[[''Ni''], [''Al'']], [[''Ni''], [''Al'']]],
      ds_conditions = \<lparr>cond_P = 101325, cond_T = Numbers [0, 100]\<rparr>,
      ds_values = [[[3, 4], [- 7, - 6]]],
      ds_occupancies = [[[1], [1]], [[1], [1]]], ds_tag = ''tag-ni''\<rparr>)"
  by code_simp

section \<open>dfttk_writeto_json: the matching records\<close>

text \<open>
  Claim C4. When \<open>dfttk_writeto_json\<close> returns, the \<open>configs\<close> and \<open>occupancies\<close>
  lists handed to every \<open>make_dataset\<close> call hold, in query order, exactly one entry
  for each document of the collection that matches both
  \<open>metadata.sublattice.configuration\<close> and \<open>metadata.phase_name\<close>: the
  configuration and the occupancies stored in that document. A document outside the
  match set has no entry.
\<close>

theorem configs_and_occupancies_of_matches:
  assumes "fst (dfttk_writeto_json lib phase_name refstate_tags configuration_to_find
                  site_ratios db_file collection temperature_index writefile w) = Inr r"
    and "fst (from_db_file lib db_file w) = Inr vasp_db"
  shows "\<exists>cfgs occs fixed_conds temp_conds hm sm cpm t ds_hm ds_sm ds.
           list_all2 (\<lambda>d cfg. \<exists>m s. doc_metadata d = Some m \<and> md_sublattice m = Some s \<and>
                        sl_configuration s = Some cfg)
             (filter (config_query configuration_to_find phase_name)
                (mongo (snd (from_db_file lib db_file w)) vasp_db collection)) cfgs \<and>
           list_all2 (\<lambda>d occ. \<exists>m s. doc_metadata d = Some m \<and> md_sublattice m = Some s \<and>
                        sl_occupancies s = Some occ)
             (filter (config_query configuration_to_find phase_name)
                (mongo (snd (from_db_file lib db_file w)) vasp_db collection)) occs \<and>
           make_dataset lib phase_name ''HM_FORM'' site_ratios cfgs fixed_conds hm occs t
             = Inr ds_hm \<and>
           make_dataset lib phase_name ''SM_FORM'' site_ratios cfgs fixed_conds sm occs t
             = Inr ds_sm \<and>
           make_dataset lib phase_name ''CPM_FORM'' site_ratios cfgs temp_conds cpm occs t
             = Inr ds \<and>
           (if writefile = PyBool True then r = None else r = Some ds)"
proof (rule dfttk_writeto_json_success [OF assms(1)])
  fix db en t st ft ct cpm flat ds_hm ds_sm ds
  assume db: "fst (from_db_file lib db_file w) = Inr db"
    and loop: "records_loop lib en temperature_index
       (coll_find (config_query configuration_to_find phase_name)
          (mongo (snd (from_db_file lib db_file w)) db collection)) init_state = Inr st"
    and m1: "make_dataset lib phase_name ''HM_FORM'' site_ratios (configs st)
       \<lparr>cond_P = 101325, cond_T = Number ft\<rparr> [[hm_values st]] (occupancies st) t = Inr ds_hm"
    and m2: "make_dataset lib phase_name ''SM_FORM'' site_ratios (configs st)
       \<lparr>cond_P = 101325, cond_T = Number ft\<rparr> [[sm_values st]] (occupancies st) t = Inr ds_sm"
    and m3: "make_dataset lib phase_name ''CPM_FORM'' site_ratios (configs st)
       \<lparr>cond_P = 101325, cond_T = Numbers ct\<rparr> cpm (occupancies st) t = Inr ds"
    and w1: "writefile = PyBool True \<Longrightarrow> r = None"
    and w3: "writefile \<noteq> PyBool True \<Longrightarrow> r = Some ds"
  from db assms(2) have dbeq: "db = vasp_db" by simp
  have c1: "list_all2 (\<lambda>d cfg. \<exists>m s. doc_metadata d = Some m \<and> md_sublattice m = Some s \<and>
                        sl_configuration s = Some cfg)
             (filter (config_query configuration_to_find phase_name)
                (mongo (snd (from_db_file lib db_file w)) vasp_db collection)) (configs st)"
    using records_loop_configs [OF loop] by (simp add: coll_find_def dbeq)
  have c2: "list_all2 (\<lambda>d occ. \<exists>m s. doc_metadata d = Some m \<and> md_sublattice m = Some s \<and>
                        sl_occupancies s = Some occ)
             (filter (config_query configuration_to_find phase_name)
                (mongo (snd (from_db_file lib db_file w)) vasp_db collection)) (occupancies st)"
    using records_loop_occupancies [OF loop] by (simp add: coll_find_def dbeq)
  have fin: "if writefile = PyBool True then r = None else r = Some ds"
    using w1 w3 by simp
  show ?thesis
    apply (intro exI conjI)
         apply (rule c1)
        apply (rule c2)
       apply (rule m1)
      apply (rule m2)
     apply (rule m3)
    apply (rule fin)
    done
qed

theorem configs_and_occupancies_of_matches_witness:
  "fst (dfttk_writeto_json example_lib ''BCC_B2'' [(''Al'', ''tag-al''), (''Ni'', ''tag-ni'')]
         [[''Ni''], [''Al'']] [1, 1] ''db.json'' ''qha'' 30 (PyBool False) example_world) =
   Inr (Some
     \<lparr>ds_phase_name = ''BCC_B2'', ds_output = ''CPM_FORM'', ds_site_ratios = [1, 1],
      ds_configurations = [[[''Ni''], [''Al'']], [[''Ni''], [''Al'']]],
      ds_conditions = \<lparr>cond_P = 101325, cond_T = Numbers [0, 100]\<rparr>,
      ds_values = [[[3, 4], [- 7, - 6]]],
      ds_occupancies = [[[1], [1]], [[1], [1]]], ds_tag = ''tag-ni''\<rparr>) \<and>
   fst (from_db_file example_lib ''db.json'' example_world) = Inr ''dfttk'' \<and>
   (\<exists>cfgs occs fixed_conds temp_conds hm sm cpm t ds_hm ds_sm ds.
           list_all2 (\<lambda>d cfg. \<exists>m s. doc_metadata d = Some m \<and> md_sublattice m = Some s \<and>
                        sl_configuration s = Some cfg)
             (filter (config_query [[''Ni''], [''Al'']] ''BCC_B2'')
                (mongo (snd (from_db_file example_lib ''db.json'' example_world)) ''dfttk'' ''qha'')) cfgs \<and>
           list_all2 (\<lambda>d occ. \<exists>m s. doc_metadata d = Some m \<and> md_sublattice m = Some s \<and>
                        sl_occupancies s = Some occ)
             (filter (config_query [[''Ni''], [''Al'']] ''BCC_B2'')
                (mongo (snd (from_db_file example_lib ''db.json'' example_world)) ''dfttk'' ''qha'')) occs \<and>
           make_dataset example_lib ''BCC_B2'' ''HM_FORM'' [1, 1] cfgs fixed_conds hm occs t
             = Inr ds_hm \<and>
           make_dataset example_lib ''BCC_B2'' ''SM_FORM'' [1, 1] cfgs fixed_conds sm occs t
             = Inr ds_sm \<and>
           make_dataset example_lib ''BCC_B2'' ''CPM_FORM'' [1, 1] cfgs temp_conds cpm occs t
             = Inr ds \<and>
           (if PyBool False = PyBool True then Some
     \<lparr>ds_phase_name = ''BCC_B2'', ds_output = ''CPM_FORM'', ds_site_ratios = [1, 1],
      ds_configurations = [[[''Ni''], [''Al'']], [[''Ni''], [''Al'']]],
      ds_conditions = \<lparr>cond_P = 101325, cond_T = Numbers [0, 100]\<rparr>,
      ds_values = [[[3, 4], [- 7, - 6]]],
      ds_occupancies = [[[1], [1]], [[1], [1]]], ds_tag = ''tag-ni''\<rparr> = None else Some
     \<lparr>ds_phase_name = ''BCC_B2'', ds_output = ''CPM_FORM'', ds_site_ratios = [1, 1],
      ds_configurations = [[[''Ni''], [''Al'']], [[''Ni''], [''Al'']]],
      ds_conditions = \<lparr>cond_P = 101325, cond_T = Numbers [0, 100]\<rparr>,
      ds_values = [[[3, 4], [- 7, - 6]]],
      ds_occupancies = [[[1], [1]], [[1], [1]]], ds_tag = ''tag-ni''\<rparr> = Some ds))"
proof -
  have h1: "fst (dfttk_writeto_json example_lib ''BCC_B2'' [(''Al'', ''tag-al''), (''Ni'', ''tag-ni'')]
         [[''Ni''], [''Al'']] [1, 1] ''db.json'' ''qha'' 30 (PyBool False) example_world) =
   Inr (Some
     \<lparr>ds_phase_name = ''BCC_B2'', ds_output = ''CPM_FORM'', ds_site_ratios = [1, 1],
      ds_configurations = [[[''Ni''], [''Al'']], [[''Ni''], [''Al'']]],
      ds_conditions = \<lparr>cond_P = 101325, cond_T = Numbers [0, 100]\<rparr>,
      ds_values = [[[3, 4], [- 7, - 6]]],
      ds_occupancies = [[[1], [1]], [[1], [1]]], ds_tag = ''tag-ni''\<rparr>)"
    by (rule example_run)
  have h2: "fst (from_db_file example_lib ''db.json'' example_world) = Inr ''dfttk''"
    by (rule example_connect)
  from configs_and_occupancies_of_matches [OF h1 h2]
  have c: "\<exists>cfgs occs fixed_conds temp_conds hm sm cpm t ds_hm ds_sm ds.
           list_all2 (\<lambda>d cfg. \<exists>m s. doc_metadata d = Some m \<and> md_sublattice m = Some s \<and>
                        sl_configuration s = Some cfg)
             (filter (config_query [[''Ni''], [''Al'']] ''BCC_B2'')
                (mongo (snd (from_db_file example_lib ''db.json'' example_world)) ''dfttk'' ''qha'')) cfgs \<and>
           list_all2 (\<lambda>d occ. \<exists>m s. doc_metadata d = Some m \<and> md_sublattice m = Some s \<and>
                        sl_occupancies s = Some occ)
             (filter (config_query [[''Ni''], [''Al'']] ''BCC_B2'')
                (mongo (snd (from_db_file example_lib ''db.json'' example_world)) ''dfttk'' ''qha'')) occs \<and>
           make_dataset example_lib ''BCC_B2'' ''HM_FORM'' [1, 1] cfgs fixed_conds hm occs t
             = Inr ds_hm \<and>
           make_dataset example_lib ''BCC_B2'' ''SM_FORM'' [1, 1] cfgs fixed_conds sm occs t
             = Inr ds_sm \<and>
           make_dataset example_lib ''BCC_B2'' ''CPM_FORM'' [1, 1] cfgs temp_conds cpm occs t
             = Inr ds \<and>
           (if PyBool False = PyBool True then Some
     \<lparr>ds_phase_name = ''BCC_B2'', ds_output = ''CPM_FORM'', ds_site_ratios = [1, 1],
      ds_configurations = [[[''Ni''], [''Al'']], [[''Ni''], [''Al'']]],
      ds_conditions = \<lparr>cond_P = 101325, cond_T = Numbers [0, 100]\<rparr>,
      ds_values = [[[3, 4], [- 7, - 6]]],
      ds_occupancies = [[[1], [1]], [[1], [1]]], ds_tag = ''tag-ni''\<rparr> = None else Some
     \<lparr>ds_phase_name = ''BCC_B2'', ds_output = ''CPM_FORM'', ds_site_ratios = [1, 1],
      ds_configurations = [[[''Ni''], [''Al'']], [[''Ni''], [''Al'']]],
      ds_conditions = \<lparr>cond_P = 101325, cond_T = Numbers [0, 100]\<rparr>,
      ds_values = [[[3, 4], [- 7, - 6]]],
      ds_occupancies = [[[1], [1]], [[1], [1]]], ds_tag = ''tag-ni''\<rparr> = Some ds)" .
  show ?thesis by (rule conjI [OF h1 conjI [OF h2 c]])
qed

section \<open>dfttk_writeto_json: the tag of the dataset\<close>

text \<open>
  Claim C10. The \<open>tag\<close> argument of every \<open>make_dataset\<close> call is the loop variable
  left behind by the loop over \<open>refstate_tags\<close>: when \<open>dfttk_writeto_json\<close> returns,
  \<open>refstate_tags\<close> is not empty and all three calls received the tag of its last
  entry, whatever tags the matched records carry.
\<close>

theorem dataset_tag_is_last_refstate_tag:
  assumes "fst (dfttk_writeto_json lib phase_name refstate_tags configuration_to_find
                  site_ratios db_file collection temperature_index writefile w) = Inr r"
  shows "refstate_tags \<noteq> [] \<and>
         (\<exists>cfgs occs fixed_conds temp_conds hm sm cpm ds_hm ds_sm ds.
           make_dataset lib phase_name ''HM_FORM'' site_ratios cfgs fixed_conds hm occs
             (snd (last refstate_tags)) = Inr ds_hm \<and>
           make_dataset lib phase_name ''SM_FORM'' site_ratios cfgs fixed_conds sm occs
             (snd (last refstate_tags)) = Inr ds_sm \<and>
           make_dataset lib phase_name ''CPM_FORM'' site_ratios cfgs temp_conds cpm occs
             (snd (last refstate_tags)) = Inr ds \<and>
           (if writefile = PyBool True then r = None else r = Some ds))"
proof (rule dfttk_writeto_json_success [OF assms])
  fix db en t st ft ct cpm flat ds_hm ds_sm ds
  assume refs: "refstate_loop lib (mongo (snd (from_db_file lib db_file w)) db collection)
                  refstate_tags Map.empty None = Inr (en, Some t)"
    and m1: "make_dataset lib phase_name ''HM_FORM'' site_ratios (configs st)
       \<lparr>cond_P = 101325, cond_T = Number ft\<rparr> [[hm_values st]] (occupancies st) t = Inr ds_hm"
    and m2: "make_dataset lib phase_name ''SM_FORM'' site_ratios (configs st)
       \<lparr>cond_P = 101325, cond_T = Number ft\<rparr> [[sm_values st]] (occupancies st) t = Inr ds_sm"
    and m3: "make_dataset lib phase_name ''CPM_FORM'' site_ratios (configs st)
       \<lparr>cond_P = 101325, cond_T = Numbers ct\<rparr> cpm (occupancies st) t = Inr ds"
    and w1: "writefile = PyBool True \<Longrightarrow> r = None"
    and w3: "writefile \<noteq> PyBool True \<Longrightarrow> r = Some ds"
  from refstate_loop_tag [OF refs]
  have tg: "Some t = (if refstate_tags = [] then None else Some (snd (last refstate_tags)))" .
  have ne: "refstate_tags \<noteq> []"
  proof
    assume "refstate_tags = []"
    with tg show False by simp
  qed
  with tg have t: "t = snd (last refstate_tags)" by simp
  have fin: "if writefile = PyBool True then r = None else r = Some ds"
    using w1 w3 by simp
  have "\<exists>cfgs occs fixed_conds temp_conds hm sm cpm ds_hm ds_sm ds.
           make_dataset lib phase_name ''HM_FORM'' site_ratios cfgs fixed_conds hm occs
             (snd (last refstate_tags)) = Inr ds_hm \<and>
           make_dataset lib phase_name ''SM_FORM'' site_ratios cfgs fixed_conds sm occs
             (snd (last refstate_tags)) = Inr ds_sm \<and>
           make_dataset lib phase_name ''CPM_FORM'' site_ratios cfgs temp_conds cpm occs
             (snd (last refstate_tags)) = Inr ds \<and>
           (if writefile = PyBool True then r = None else r = Some ds)"
    apply (intro exI conjI)
       apply (rule m1 [unfolded t])
      apply (rule m2 [unfolded t])
     apply (rule m3 [unfolded t])
    apply (rule fin)
    done
  with ne show ?thesis by (rule conjI)
qed

theorem dataset_tag_is_last_refstate_tag_witness:
  "fst (dfttk_writeto_json example_lib ''BCC_B2'' [(''Al'', ''tag-al''), (''Ni'', ''tag-ni'')]
         [[''Ni''], [''Al'']] [1, 1] ''db.json'' ''qha'' 30 (PyBool False) example_world) =
   Inr (Some
     \<lparr>ds_phase_name = ''BCC_B2'', ds_output = ''CPM_FORM'', ds_site_ratios = [1, 1],
      ds_configurations = [[[''Ni''], [''Al'']], [[''Ni''], [''Al'']]],
      ds_conditions = \<lparr>cond_P = 101325, cond_T = Numbers [0, 100]\<rparr>,
      ds_values = [[[3, 4], [- 7, - 6]]],
      ds_occupancies = [[[1], [1]], [[1], [1]]], ds_tag = ''tag-ni''\<rparr>) \<and>
   [(''Al'', ''tag-al''), (''Ni'', ''tag-ni'')] \<noteq> [] \<and>
         (\<exists>cfgs occs fixed_conds temp_conds hm sm cpm ds_hm ds_sm ds.
           make_dataset example_lib ''BCC_B2'' ''HM_FORM'' [1, 1] cfgs fixed_conds hm occs
             (snd (last [(''Al'', ''tag-al''), (''Ni'', ''tag-ni'')])) = Inr ds_hm \<and>
           make_dataset example_lib ''BCC_B2'' ''SM_FORM'' [1, 1] cfgs fixed_conds sm occs
             (snd (last [(''Al'', ''tag-al''), (''Ni'', ''tag-ni'')])) = Inr ds_sm \<and>
           make_dataset example_lib ''BCC_B2'' ''CPM_FORM'' [1, 1] cfgs temp_conds cpm occs
             (snd (last [(''Al'', ''tag-al''), (''Ni'', ''tag-ni'')])) = Inr ds \<and>
           (if PyBool False = PyBool True then Some
     \<lparr>ds_phase_name = ''BCC_B2'', ds_output = ''CPM_FORM'', ds_site_ratios = [1, 1],
      ds_configurations = [[[''Ni''], [''Al'']], [[''Ni''], [''Al'']]],
      ds_conditions = \<lparr>cond_P = 101325, cond_T = Numbers [0, 100]\<rparr>,
      ds_values = [[[3, 4], [- 7, - 6]]],
      ds_occupancies = [[[1], [1]], [[1], [1]]], ds_tag = ''tag-ni''\<rparr> = None else Some
     \<lparr>ds_phase_name = ''BCC_B2'', ds_output = ''CPM_FORM'', ds_site_ratios = [1, 1],
      ds_configurations = [[[''Ni''], [''Al'']], [[''Ni''], [''Al'']]],
      ds_conditions = \<lparr>cond_P = 101325, cond_T = Numbers [0, 100]\<rparr>,
      ds_values = [[[3, 4], [- 7, - 6]]],
      ds_occupancies = [[[1], [1]], [[1], [1]]], ds_tag = ''tag-ni''\<rparr> = Some ds))"
proof -
  have h1: "fst (dfttk_writeto_json example_lib ''BCC_B2'' [(''Al'', ''tag-al''), (''Ni'', ''tag-ni'')]
         [[''Ni''], [''Al'']] [1, 1] ''db.json'' ''qha'' 30 (PyBool False) example_world) =
   Inr (Some
     \<lparr>ds_phase_name = ''BCC_B2'', ds_output = ''CPM_FORM'', ds_site_ratios = [1, 1],
      ds_configurations = [[[''Ni''], [''Al'']], [[''Ni''], [''Al'']]],
      ds_conditions = \<lparr>cond_P = 101325, cond_T = Numbers [0, 100]\<rparr>,
      ds_values = [[[3, 4], [- 7, - 6]]],
      ds_occupancies = [[[1], [1]], [[1], [1]]], ds_tag = ''tag-ni''\<rparr>)"
    by (rule example_run)
  from dataset_tag_is_last_refstate_tag [OF h1]
  have c: "[(''Al'', ''tag-al''), (''Ni'', ''tag-ni'')] \<noteq> [] \<and>
         (\<exists>cfgs occs fixed_conds temp_conds hm sm cpm ds_hm ds_sm ds.
           make_dataset example_lib ''BCC_B2'' ''HM_FORM'' [1, 1] cfgs fixed_conds hm occs
             (snd (last [(''Al'', ''tag-al''), (''Ni'', ''tag-ni'')])) = Inr ds_hm \<and>
           make_dataset example_lib ''BCC_B2'' ''SM_FORM'' [1, 1] cfgs fixed_conds sm occs
             (snd (last [(''Al'', ''tag-al''), (''Ni'', ''tag-ni'')])) = Inr ds_sm \<and>
           make_dataset example_lib ''BCC_B2'' ''CPM_FORM'' [1, 1] cfgs temp_conds cpm occs
             (snd (last [(''Al'', ''tag-al''), (''Ni'', ''tag-ni'')])) = Inr ds \<and>
           (if PyBool False = PyBool True then Some
     \<lparr>ds_phase_name = ''BCC_B2'', ds_output = ''CPM_FORM'', ds_site_ratios = [1, 1],
      ds_configurations = [[[''Ni''], [''Al'']], [[''Ni''], [''Al'']]],
      ds_conditions = \<lparr>cond_P = 101325, cond_T = Numbers [0, 100]\<rparr>,
      ds_values = [[[3, 4], [- 7, - 6]]],
      ds_occupancies = [[[1], [1]], [[1], [1]]], ds_tag = ''tag-ni''\<rparr> = None else Some
     \<lparr>ds_phase_name = ''BCC_B2'', ds_output = ''CPM_FORM'', ds_site_ratios = [1, 1],
      ds_configurations = [[[''Ni''], [''Al'']], [[''Ni''], [''Al'']]],
      ds_conditions = \<lparr>cond_P = 101325, cond_T = Numbers [0, 100]\<rparr>,
      ds_values = [[[3, 4], [- 7, - 6]]],
      ds_occupancies = [[[1], [1]], [[1], [1]]], ds_tag = ''tag-ni''\<rparr> = Some ds))" .
  show ?thesis by (rule conjI [OF h1 c])
qed

section \<open>dfttk_writeto_json: formation quantities\<close>

lemma refstate_loop_dom:
  "refstate_loop lib coll tags en tg = Inr (en', tg') \<Longrightarrow> dom en' = dom en \<union> fst ` set tags"
proof (induction tags arbitrary: en tg)
  case Nil
  then show ?case by simp
next
  case (Cons a tags)
  obtain el t where a: "a = (el, t)" by (cases a)
  from Cons.prems a obtain tp where
    r: "refstate_loop lib coll tags (en(el \<mapsto> tp)) (Some t) = Inr (en', tg')"
    by (auto simp: bind_err_Inr_iff Let_def)
  from Cons.IH [OF r] a show ?case by auto
qed

lemma refstate_loop_energies_all:
  assumes "refstate_loop lib coll tags en0 tg0 = Inr (en, tg)" and "distinct (map fst tags)"
  shows "list_all (\<lambda>(el, t). \<exists>tp. get_thermal_props lib (find_one (tag_query t) coll) = Inr tp \<and>
                     en el = Some tp) tags"
  unfolding list_all_iff
proof (intro ballI)
  fix x
  assume x: "x \<in> set tags"
  obtain el t where xeq: "x = (el, t)" by (cases x)
  with x have "(el, t) \<in> set tags" by simp
  from refstate_loop_energies [OF assms this] xeq
  show "case x of (el, t) \<Rightarrow>
          \<exists>tp. get_thermal_props lib (find_one (tag_query t) coll) = Inr tp \<and> en el = Some tp"
    by simp
qed

text \<open>
  Claim C3. When \<open>dfttk_writeto_json\<close> returns, \<open>refstate_energies\<close> maps exactly the
  elements of \<open>refstate_tags\<close> (a dict, so its keys are distinct), each to
  \<open>get_thermal_props\<close> of the record that \<open>find_one\<close> gives for its tag. For every
  matching record, in order, the value appended to \<open>hm_values\<close> is
  \<open>get_formation_energy(tprops, struct, refstate_energies, 'HM', idx=temperature_index)\<close>,
  the one appended to \<open>sm_values\<close> is the same call for \<open>'SM'\<close>, and the one appended
  to \<open>cpm_values\<close> is the call for \<open>'CPM'\<close> with \<open>thin=10\<close>, without its last two
  entries; \<open>tprops\<close> and \<open>struct\<close> are those of the record. These three lists, once
  reshaped, are the values of the three datasets.
\<close>

theorem formation_values_relative_to_refstates:
  assumes "fst (dfttk_writeto_json lib phase_name refstate_tags configuration_to_find
                  site_ratios db_file collection temperature_index writefile w) = Inr r"
    and "fst (from_db_file lib db_file w) = Inr vasp_db"
    and "distinct (map fst refstate_tags)"
  shows "\<exists>en hm sm rows cpm cfgs occs fixed_conds temp_conds t ds_hm ds_sm ds.
           list_all (\<lambda>(el, tg). \<exists>tp.
               get_thermal_props lib (find_one (tag_query tg)
                 (mongo (snd (from_db_file lib db_file w)) vasp_db collection)) = Inr tp \<and>
               en el = Some tp) refstate_tags \<and>
           dom en = fst ` set refstate_tags \<and>
           list_all2 (\<lambda>d v. \<exists>tp sd s. get_thermal_props lib (Some d) = Inr tp \<and>
                        doc_structure d = Some sd \<and> Structure_from_dict lib sd = Inr s \<and>
                        get_formation_energy_idx lib tp s en ''HM'' temperature_index = Inr v)
             (filter (config_query configuration_to_find phase_name)
                (mongo (snd (from_db_file lib db_file w)) vasp_db collection)) hm \<and>
           list_all2 (\<lambda>d v. \<exists>tp sd s. get_thermal_props lib (Some d) = Inr tp \<and>
                        doc_structure d = Some sd \<and> Structure_from_dict lib sd = Inr s \<and>
                        get_formation_energy_idx lib tp s en ''SM'' temperature_index = Inr v)
             (filter (config_query configuration_to_find phase_name)
                (mongo (snd (from_db_file lib db_file w)) vasp_db collection)) sm \<and>
           list_all2 (\<lambda>d v. \<exists>tp sd s full. get_thermal_props lib (Some d) = Inr tp \<and>
                        doc_structure d = Some sd \<and> Structure_from_dict lib sd = Inr s \<and>
                        get_formation_energy_thin lib tp s en ''CPM'' 10 = Inr full \<and>
                        v = drop_last2 full)
             (filter (config_query configuration_to_find phase_name)
                (mongo (snd (from_db_file lib db_file w)) vasp_db collection)) rows \<and>
           np_array_T_newaxis rows = Inr cpm \<and>
           make_dataset lib phase_name ''HM_FORM'' site_ratios cfgs fixed_conds [[hm]] occs t
             = Inr ds_hm \<and>
           make_dataset lib phase_name ''SM_FORM'' site_ratios cfgs fixed_conds [[sm]] occs t
             = Inr ds_sm \<and>
           make_dataset lib phase_name ''CPM_FORM'' site_ratios cfgs temp_conds cpm occs t
             = Inr ds \<and>
           (if writefile = PyBool True then r = None else r = Some ds)"
proof (rule dfttk_writeto_json_success [OF assms(1)])
  fix db en t st ft ct cpm flat ds_hm ds_sm ds
  assume db: "fst (from_db_file lib db_file w) = Inr db"
    and refs: "refstate_loop lib (mongo (snd (from_db_file lib db_file w)) db collection)
                 refstate_tags Map.empty None = Inr (en, Some t)"
    and loop: "records_loop lib en temperature_index
       (coll_find (config_query configuration_to_find phase_name)
          (mongo (snd (from_db_file lib db_file w)) db collection)) init_state = Inr st"
    and ft: "fixed_temp st = Some ft"
    and ct: "cpm_temps st = Some ct"
    and arr: "np_array_T_newaxis (cpm_values st) = Inr cpm"
    and m1: "make_dataset lib phase_name ''HM_FORM'' site_ratios (configs st)
       \<lparr>cond_P = 101325, cond_T = Number ft\<rparr> [[hm_values st]] (occupancies st) t = Inr ds_hm"
    and m2: "make_dataset lib phase_name ''SM_FORM'' site_ratios (configs st)
       \<lparr>cond_P = 101325, cond_T = Number ft\<rparr> [[sm_values st]] (occupancies st) t = Inr ds_sm"
    and m3: "make_dataset lib phase_name ''CPM_FORM'' site_ratios (configs st)
       \<lparr>cond_P = 101325, cond_T = Numbers ct\<rparr> cpm (occupancies st) t = Inr ds"
    and w1: "writefile = PyBool True \<Longrightarrow> r = None"
    and w3: "writefile \<noteq> PyBool True \<Longrightarrow> r = Some ds"
  let ?coll = "mongo (snd (from_db_file lib db_file w)) vasp_db collection"
  let ?docs = "filter (config_query configuration_to_find phase_name) ?coll"
  from db assms(2) have dbeq: "db = vasp_db" by simp
  from refs have refs': "refstate_loop lib ?coll refstate_tags Map.empty None = Inr (en, Some t)"
    by (simp add: dbeq)
  from loop have loop': "records_loop lib en temperature_index ?docs init_state = Inr st"
    by (simp add: coll_find_def dbeq)
  have fin: "if writefile = PyBool True then r = None else r = Some ds"
    using w1 w3 by simp
  have e1: "list_all (\<lambda>(el, tg). \<exists>tp.
               get_thermal_props lib (find_one (tag_query tg) ?coll) = Inr tp \<and>
               en el = Some tp) refstate_tags"
    by (rule refstate_loop_energies_all [OF refs' assms(3)])
  have e2: "dom en = fst ` set refstate_tags"
    using refstate_loop_dom [OF refs'] by simp
  show ?thesis
    apply (intro exI conjI)
             apply (rule e1)
            apply (rule e2)
           apply (rule records_loop_hm_values [OF loop'])
          apply (rule records_loop_sm_values [OF loop'])
         apply (rule records_loop_cpm_values [OF loop'])
        apply (rule arr)
       apply (rule m1)
      apply (rule m2)
     apply (rule m3)
    apply (rule fin)
    done
qed

theorem formation_values_relative_to_refstates_witness:
  "fst (dfttk_writeto_json example_lib ''BCC_B2'' [(''Al'', ''tag-al''), (''Ni'', ''tag-ni'')]
         [[''Ni''], [''Al'']] [1, 1] ''db.json'' ''qha'' 30 (PyBool False) example_world) =
   Inr (Some
     \<lparr>ds_phase_name = ''BCC_B2'', ds_output = ''CPM_FORM'', ds_site_ratios = [1, 1],
      ds_configurations = [[[''Ni''], [''Al'']], [[''Ni''], [''Al'']]],
      ds_conditions = \<lparr>cond_P = 101325, cond_T = Numbers [0, 100]\<rparr>,
      ds_values = [[[3, 4], [- 7, - 6]]],
      ds_occupancies = [[[1], [1]], [[1], [1]]], ds_tag = ''tag-ni''\<rparr>) \<and>
   fst (from_db_file example_lib ''db.json'' example_world) = Inr ''dfttk'' \<and>
   distinct (map fst [(''Al'', ''tag-al''), (''Ni'', ''tag-ni'')]) \<and>
   (\<exists>en hm sm rows cpm cfgs occs fixed_conds temp_conds t ds_hm ds_sm ds.
           list_all (\<lambda>(el, tg). \<exists>tp.
               get_thermal_props example_lib (find_one (tag_query tg)
                 (mongo (snd (from_db_file example_lib ''db.json'' example_world)) ''dfttk'' ''qha'')) = Inr tp \<and>
               en el = Some tp) [(''Al'', ''tag-al''), (''Ni'', ''tag-ni'')] \<and>
           dom en = fst ` set [(''Al'', ''tag-al''), (''Ni'', ''tag-ni'')] \<and>
           list_all2 (\<lambda>d v. \<exists>tp sd s. get_thermal_props example_lib (Some d) = Inr tp \<and>
                        doc_structure d = Some sd \<and> Structure_from_dict example_lib sd = Inr s \<and>
                        get_formation_energy_idx example_lib tp s en ''HM'' 30 = Inr v)
             (filter (config_query [[''Ni''], [''Al'']] ''BCC_B2'')
                (mongo (snd (from_db_file example_lib ''db.json'' example_world)) ''dfttk'' ''qha'')) hm \<and>
           list_all2 (\<lambda>d v. \<exists>tp sd s. get_thermal_props example_lib (Some d) = Inr tp \<and>
                        doc_structure d = Some sd \<and> Structure_from_dict example_lib sd = Inr s \<and>
                        get_formation_energy_idx example_lib tp s en ''SM'' 30 = Inr v)
             (filter (config_query [[''Ni''], [''Al'']] ''BCC_B2'')
                (mongo (snd (from_db_file example_lib ''db.json'' example_world)) ''dfttk'' ''qha'')) sm \<and>
           list_all2 (\<lambda>d v. \<exists>tp sd s full. get_thermal_props example_lib (Some d) = Inr tp \<and>
                        doc_structure d = Some sd \<and> Structure_from_dict example_lib sd = Inr s \<and>
                        get_formation_energy_thin example_lib tp s en ''CPM'' 10 = Inr full \<and>
                        v = drop_last2 full)
             (filter (config_query [[''Ni''], [''Al'']] ''BCC_B2'')
                (mongo (snd (from_db_file example_lib ''db.json'' example_world)) ''dfttk'' ''qha'')) rows \<and>
           np_array_T_newaxis rows = Inr cpm \<and>
           make_dataset example_lib ''BCC_B2'' ''HM_FORM'' [1, 1] cfgs fixed_conds [[hm]] occs t
             = Inr ds_hm \<and>
           make_dataset example_lib ''BCC_B2'' ''SM_FORM'' [1, 1] cfgs fixed_conds [[sm]] occs t
             = Inr ds_sm \<and>
           make_dataset example_lib ''BCC_B2'' ''CPM_FORM'' [1, 1] cfgs temp_conds cpm occs t
             = Inr ds \<and>
           (if PyBool False = PyBool True then (Some
     \<lparr>ds_phase_name = ''BCC_B2'', ds_output = ''CPM_FORM'', ds_site_ratios = [1, 1],
      ds_configurations = [[[''Ni''], [''Al'']], [[''Ni''], [''Al'']]],
      ds_conditions = \<lparr>cond_P = 101325, cond_T = Numbers [0, 100]\<rparr>,
      ds_values = [[[3, 4], [- 7, - 6]]],
      ds_occupancies = [[[1], [1]], [[1], [1]]], ds_tag = ''tag-ni''\<rparr>) = None else (Some
     \<lparr>ds_phase_name = ''BCC_B2'', ds_output = ''CPM_FORM'', ds_site_ratios = [1, 1],
      ds_configurations = [[[''Ni''], [''Al'']], [[''Ni''], [''Al'']]],
      ds_conditions = \<lparr>cond_P = 101325, cond_T = Numbers [0, 100]\<rparr>,
      ds_values = [[[3, 4], [- 7, - 6]]],
      ds_occupancies = [[[1], [1]], [[1], [1]]], ds_tag = ''tag-ni''\<rparr>) = Some ds))"
proof -
  have h1: "fst (dfttk_writeto_json example_lib ''BCC_B2'' [(''Al'', ''tag-al''), (''Ni'', ''tag-ni'')]
         [[''Ni''], [''Al'']] [1, 1] ''db.json'' ''qha'' 30 (PyBool False) example_world) =
   Inr (Some
     \<lparr>ds_phase_name = ''BCC_B2'', ds_output = ''CPM_FORM'', ds_site_ratios = [1, 1],
      ds_configurations = [[[''Ni''], [''Al'']], [[''Ni''], [''Al'']]],
      ds_conditions = \<lparr>cond_P = 101325, cond_T = Numbers [0, 100]\<rparr>,
      ds_values = [[[3, 4], [- 7, - 6]]],
      ds_occupancies = [[[1], [1]], [[1], [1]]], ds_tag = ''tag-ni''\<rparr>)"
    by (rule example_run)
  have h2: "fst (from_db_file example_lib ''db.json'' example_world) = Inr ''dfttk''"
    by (rule example_connect)
  have h3: "distinct (map fst [(''Al'', ''tag-al''), (''Ni'', ''tag-ni'')])"
    by simp
  note c = formation_values_relative_to_refstates [OF h1 h2 h3]
  show ?thesis by (rule conjI [OF h1 conjI [OF h2 conjI [OF h3 c]]])
qed

section \<open>dfttk_writeto_json: the shape of the values and the conditions\<close>

lemma records_loop_cpm_values_nonempty:
  assumes "records_loop lib en ti docs init_state = Inr st" and "docs \<noteq> []"
  shows "cpm_values st \<noteq> []"
proof -
  from records_loop_cpm_values [OF assms(1)]
  have "length docs = length (cpm_values st)" by (rule list_all2_lengthD)
  with assms(2) show ?thesis by auto
qed

text \<open>
  Claim C5. When \<open>dfttk_writeto_json\<close> returns, at least one record matched. With
  \<open>st\<close> the local variables after the loop over the matches and \<open>ts\<close> the temperature
  array \<open>tprops['T']\<close> of the last match: the \<open>HM_FORM\<close> and \<open>SM_FORM\<close> datasets are
  made from \<open>[[hm_values]]\<close> and \<open>[[sm_values]]\<close> under the conditions \<open>P = 101325\<close>,
  \<open>T = ts[temperature_index]\<close>, and the \<open>CPM_FORM\<close> dataset from the transpose of
  \<open>cpm_values\<close> (whose rows all have one length) under a new leading axis, under the
  conditions \<open>P = 101325\<close>, \<open>T = ts[::10][:-2]\<close>.
\<close>

theorem values_reshaped_with_conditions:
  assumes "fst (dfttk_writeto_json lib phase_name refstate_tags configuration_to_find
                  site_ratios db_file collection temperature_index writefile w) = Inr r"
    and "fst (from_db_file lib db_file w) = Inr vasp_db"
  shows "\<exists>en st tp ts ft t ds_hm ds_sm ds.
           records_loop lib en temperature_index
             (filter (config_query configuration_to_find phase_name)
                (mongo (snd (from_db_file lib db_file w)) vasp_db collection)) init_state = Inr st \<and>
           (filter (config_query configuration_to_find phase_name)
                (mongo (snd (from_db_file lib db_file w)) vasp_db collection)) \<noteq> [] \<and>
           get_thermal_props lib (Some (last
             (filter (config_query configuration_to_find phase_name)
                (mongo (snd (from_db_file lib db_file w)) vasp_db collection)))) = Inr tp \<and>
           tp ''T'' = Some ts \<and>
           np_index ts temperature_index = Inr ft \<and>
           list_all (\<lambda>row. length row = length (hd (cpm_values st))) (cpm_values st) \<and>
           make_dataset lib phase_name ''HM_FORM'' site_ratios (configs st)
             \<lparr>cond_P = 101325, cond_T = Number ft\<rparr> [[hm_values st]] (occupancies st) t
             = Inr ds_hm \<and>
           make_dataset lib phase_name ''SM_FORM'' site_ratios (configs st)
             \<lparr>cond_P = 101325, cond_T = Number ft\<rparr> [[sm_values st]] (occupancies st) t
             = Inr ds_sm \<and>
           make_dataset lib phase_name ''CPM_FORM'' site_ratios (configs st)
             \<lparr>cond_P = 101325, cond_T = Numbers (drop_last2 (slice_step 10 ts))\<rparr>
             [transpose (cpm_values st)] (occupancies st) t = Inr ds \<and>
           (if writefile = PyBool True then r = None else r = Some ds)"
proof (rule dfttk_writeto_json_success [OF assms(1)])
  fix db en t st ft ct cpm flat ds_hm ds_sm ds
  assume db: "fst (from_db_file lib db_file w) = Inr db"
    and refs: "refstate_loop lib (mongo (snd (from_db_file lib db_file w)) db collection)
                 refstate_tags Map.empty None = Inr (en, Some t)"
    and loop: "records_loop lib en temperature_index
       (coll_find (config_query configuration_to_find phase_name)
          (mongo (snd (from_db_file lib db_file w)) db collection)) init_state = Inr st"
    and ft: "fixed_temp st = Some ft"
    and ct: "cpm_temps st = Some ct"
    and arr: "np_array_T_newaxis (cpm_values st) = Inr cpm"
    and m1: "make_dataset lib phase_name ''HM_FORM'' site_ratios (configs st)
       \<lparr>cond_P = 101325, cond_T = Number ft\<rparr> [[hm_values st]] (occupancies st) t = Inr ds_hm"
    and m2: "make_dataset lib phase_name ''SM_FORM'' site_ratios (configs st)
       \<lparr>cond_P = 101325, cond_T = Number ft\<rparr> [[sm_values st]] (occupancies st) t = Inr ds_sm"
    and m3: "make_dataset lib phase_name ''CPM_FORM'' site_ratios (configs st)
       \<lparr>cond_P = 101325, cond_T = Numbers ct\<rparr> cpm (occupancies st) t = Inr ds"
    and w1: "writefile = PyBool True \<Longrightarrow> r = None"
    and w3: "writefile \<noteq> PyBool True \<Longrightarrow> r = Some ds"
  let ?coll = "mongo (snd (from_db_file lib db_file w)) vasp_db collection"
  let ?docs = "filter (config_query configuration_to_find phase_name) ?coll"
  from db assms(2) have dbeq: "db = vasp_db" by simp
  from refs have refs': "refstate_loop lib ?coll refstate_tags Map.empty None = Inr (en, Some t)"
    by (simp add: dbeq)
  from loop have loop': "records_loop lib en temperature_index ?docs init_state = Inr st"
    by (simp add: coll_find_def dbeq)
  have fin: "if writefile = PyBool True then r = None else r = Some ds"
    using w1 w3 by simp
  have ne: "?docs \<noteq> []"
    by (rule records_loop_nonempty [OF loop' ft])
  from records_loop_last [OF loop' ne] obtain tp ts ft' where
    g: "get_thermal_props lib (Some (last ?docs)) = Inr tp" and
    ts: "tp ''T'' = Some ts" and
    ix: "np_index ts temperature_index = Inr ft'" and
    ft': "fixed_temp st = Some ft'" and
    ct': "cpm_temps st = Some (drop_last2 (slice_step 10 ts))"
    by (elim exE conjE)
  from ft ft' have fteq: "ft' = ft" by simp
  from ct ct' have cteq: "ct = drop_last2 (slice_step 10 ts)" by simp
  have rows: "cpm_values st \<noteq> []"
    by (rule records_loop_cpm_values_nonempty [OF loop' ne])
  note shape = np_array_T_newaxis_Inr [OF arr rows]
  from shape have cpm: "cpm = [transpose (cpm_values st)]" by (rule conjunct1)
  from shape
  have rect: "list_all (\<lambda>row. length row = length (hd (cpm_values st))) (cpm_values st)"
    by (rule conjunct2)
  show ?thesis
    apply (intro exI conjI)
             apply (rule loop')
            apply (rule ne)
           apply (rule g)
          apply (rule ts)
         apply (rule ix [unfolded fteq])
        apply (rule rect)
       apply (rule m1)
      apply (rule m2)
     apply (rule m3 [unfolded cpm cteq])
    apply (rule fin)
    done
qed

theorem values_reshaped_with_conditions_witness:
  "fst (dfttk_writeto_json example_lib ''BCC_B2'' [(''Al'', ''tag-al''), (''Ni'', ''tag-ni'')]
         [[''Ni''], [''Al'']] [1, 1] ''db.json'' ''qha'' 30 (PyBool False) example_world) =
   Inr (Some
     \<lparr>ds_phase_name = ''BCC_B2'', ds_output = ''CPM_FORM'', ds_site_ratios = [1, 1],
      ds_configurations = [[[''Ni''], [''Al'']], [[''Ni''], [''Al'']]],
      ds_conditions = \<lparr>cond_P = 101325, cond_T = Numbers [0, 100]\<rparr>,
      ds_values = [[[3, 4], [- 7, - 6]]],
      ds_occupancies = [[[1], [1]], [[1], [1]]], ds_tag = ''tag-ni''\<rparr>) \<and>
   fst (from_db_file example_lib ''db.json'' example_world) = Inr ''dfttk'' \<and>
   (\<exists>en st tp ts ft t ds_hm ds_sm ds.
           records_loop example_lib en 30
             (filter (config_query [[''Ni''], [''Al'']] ''BCC_B2'')
                (mongo (snd (from_db_file example_lib ''db.json'' example_world)) ''dfttk'' ''qha'')) init_state = Inr st \<and>
           (filter (config_query [[''Ni''], [''Al'']] ''BCC_B2'')
                (mongo (snd (from_db_file example_lib ''db.json'' example_world)) ''dfttk'' ''qha'')) \<noteq> [] \<and>
           get_thermal_props example_lib (Some (last
             (filter (config_query [[''Ni''], [''Al'']] ''BCC_B2'')
                (mongo (snd (from_db_file example_lib ''db.json'' example_world)) ''dfttk'' ''qha'')))) = Inr tp \<and>
           tp ''T'' = Some ts \<and>
           np_index ts 30 = Inr ft \<and>
           list_all (\<lambda>row. length row = length (hd (cpm_values st))) (cpm_values st) \<and>
           make_dataset example_lib ''BCC_B2'' ''HM_FORM'' [1, 1] (configs st)
             \<lparr>cond_P = 101325, cond_T = Number ft\<rparr> [[hm_values st]] (occupancies st) t
             = Inr ds_hm \<and>
           make_dataset example_lib ''BCC_B2'' ''SM_FORM'' [1, 1] (configs st)
             \<lparr>cond_P = 101325, cond_T = Number ft\<rparr> [[sm_values st]] (occupancies st) t
             = Inr ds_sm \<and>
           make_dataset example_lib ''BCC_B2'' ''CPM_FORM'' [1, 1] (configs st)
             \<lparr>cond_P = 101325, cond_T = Numbers (drop_last2 (slice_step 10 ts))\<rparr>
             [transpose (cpm_values st)] (occupancies st) t = Inr ds \<and>
           (if PyBool False = PyBool True then (Some
     \<lparr>ds_phase_name = ''BCC_B2'', ds_output = ''CPM_FORM'', ds_site_ratios = [1, 1],
      ds_configurations = [[[''Ni''], [''Al'']], [[''Ni''], [''Al'']]],
      ds_conditions = \<lparr>cond_P = 101325, cond_T = Numbers [0, 100]\<rparr>,
      ds_values = [[[3, 4], [- 7, - 6]]],
      ds_occupancies = [[[1], [1]], [[1], [1]]], ds_tag = ''tag-ni''\<rparr>) = None else (Some
     \<lparr>ds_phase_name = ''BCC_B2'', ds_output = ''CPM_FORM'', ds_site_ratios = [1, 1],
      ds_configurations = [[[''Ni''], [''Al'']], [[''Ni''], [''Al'']]],
      ds_conditions = \<lparr>cond_P = 101325, cond_T = Numbers [0, 100]\<rparr>,
      ds_values = [[[3, 4], [- 7, - 6]]],
      ds_occupancies = [[[1], [1]], [[1], [1]]], ds_tag = ''tag-ni''\<rparr>) = Some ds))"
proof -
  have h1: "fst (dfttk_writeto_json example_lib ''BCC_B2'' [(''Al'', ''tag-al''), (''Ni'', ''tag-ni'')]
         [[''Ni''], [''Al'']] [1, 1] ''db.json'' ''qha'' 30 (PyBool False) example_world) =
   Inr (Some
     \<lparr>ds_phase_name = ''BCC_B2'', ds_output = ''CPM_FORM'', ds_site_ratios = [1, 1],
      ds_configurations = [[[''Ni''], [''Al'']], [[''Ni''], [''Al'']]],
      ds_conditions = \<lparr>cond_P = 101325, cond_T = Numbers [0, 100]\<rparr>,
      ds_values = [[[3, 4], [- 7, - 6]]],
      ds_occupancies = [[[1], [1]], [[1], [1]]], ds_tag = ''tag-ni''\<rparr>)"
    by (rule example_run)
  have h2: "fst (from_db_file example_lib ''db.json'' example_world) = Inr ''dfttk''"
    by (rule example_connect)
  note c = values_reshaped_with_conditions [OF h1 h2]
  show ?thesis by (rule conjI [OF h1 conjI [OF h2 c]])
qed

section \<open>dfttk_writeto_json: the file and the returned dataset\<close>

lemma example_run_writing:
  "fst (dfttk_writeto_json example_lib ''BCC_B2'' [(''Al'', ''tag-al''), (''Ni'', ''tag-ni'')]
         [[''Ni''], [''Al'']] [1, 1] ''db.json'' ''qha'' 30 (PyBool True) example_world) = Inr None"
  by code_simp



section \<open>dfttk_writeto_json: which quantities reach the disk\<close>

text \<open>
  Claim C1 asks for the enthalpy, the entropy and the heat capacity datasets to be
  serialised when \<open>writefile\<close> is True. Lines 116 to 118 stand after the loop of lines
  114 and 115, not inside it, so they run once, with \<open>prop\<close> and \<open>ds\<close> as the last
  pass left them. On the example database the call returns None and the disk holds
  one file, the \<open>CPM_FORM\<close> dataset; no file holds \<open>HM_FORM\<close> or \<open>SM_FORM\<close>.
\<close>

theorem only_last_dataset_written:
  "fst (dfttk_writeto_json example_lib ''BCC_B2'' [(''Al'', ''tag-al''), (''Ni'', ''tag-ni'')]
         [[''Ni''], [''Al'']] [1, 1] ''db.json'' ''qha'' 30 (PyBool True) example_world) = Inr None \<and>
   files (snd (dfttk_writeto_json example_lib ''BCC_B2'' [(''Al'', ''tag-al''), (''Ni'', ''tag-ni'')]
         [[''Ni''], [''Al'']] [1, 1] ''db.json'' ''qha'' 30 (PyBool True) example_world))
     ''AL-NI-BCC_B2-CPM_FORM-DFTTK.json'' = Some (Json
     \<lparr>ds_phase_name = ''BCC_B2'', ds_output = ''CPM_FORM'', ds_site_ratios = [1, 1],
      ds_configurations = [[[''Ni''], [''Al'']], [[''Ni''], [''Al'']]],
      ds_conditions = \<lparr>cond_P = 101325, cond_T = Numbers [0, 100]\<rparr>,
      ds_values = [[[3, 4], [- 7, - 6]]],
      ds_occupancies = [[[1], [1]], [[1], [1]]], ds_tag = ''tag-ni''\<rparr>) \<and>
   files (snd (dfttk_writeto_json example_lib ''BCC_B2'' [(''Al'', ''tag-al''), (''Ni'', ''tag-ni'')]
         [[''Ni''], [''Al'']] [1, 1] ''db.json'' ''qha'' 30 (PyBool True) example_world))
     ''AL-NI-BCC_B2-HM_FORM-DFTTK.json'' = None \<and>
   files (snd (dfttk_writeto_json example_lib ''BCC_B2'' [(''Al'', ''tag-al''), (''Ni'', ''tag-ni'')]
         [[''Ni''], [''Al'']] [1, 1] ''db.json'' ''qha'' 30 (PyBool True) example_world))
     ''AL-NI-BCC_B2-SM_FORM-DFTTK.json'' = None \<and>
   dom (files (snd (dfttk_writeto_json example_lib ''BCC_B2'' [(''Al'', ''tag-al''), (''Ni'', ''tag-ni'')]
         [[''Ni''], [''Al'']] [1, 1] ''db.json'' ''qha'' 30 (PyBool True) example_world))) = {''AL-NI-BCC_B2-CPM_FORM-DFTTK.json''}"
proof -
  let ?run = "dfttk_writeto_json example_lib ''BCC_B2'' [(''Al'', ''tag-al''), (''Ni'', ''tag-ni'')]
         [[''Ni''], [''Al'']] [1, 1] ''db.json'' ''qha'' 30 (PyBool True) example_world"
  have r: "fst ?run = Inr None"
    by (rule example_run_writing)
  have cpm: "files (snd ?run) ''AL-NI-BCC_B2-CPM_FORM-DFTTK.json'' = Some (Json
     \<lparr>ds_phase_name = ''BCC_B2'', ds_output = ''CPM_FORM'', ds_site_ratios = [1, 1],
      ds_configurations = [[[''Ni''], [''Al'']], [[''Ni''], [''Al'']]],
      ds_conditions = \<lparr>cond_P = 101325, cond_T = Numbers [0, 100]\<rparr>,
      ds_values = [[[3, 4], [- 7, - 6]]],
      ds_occupancies = [[[1], [1]], [[1], [1]]], ds_tag = ''tag-ni''\<rparr>)"
    by code_simp
  have hm: "files (snd ?run) ''AL-NI-BCC_B2-HM_FORM-DFTTK.json'' = None"
    by code_simp
  have sm: "files (snd ?run) ''AL-NI-BCC_B2-SM_FORM-DFTTK.json'' = None"
    by code_simp
  have d: "dom (files (snd ?run)) = {''AL-NI-BCC_B2-CPM_FORM-DFTTK.json''}"
  proof (rule dfttk_writeto_json_success [OF r])
    fix db en t st ft ct cpm flat ds_hm ds_sm ds
    assume fl: "recursive_flatten example_lib [[''Ni''], [''Al'']] = Inr flat"
      and w2: "PyBool True = PyBool True \<Longrightarrow>
         snd ?run =
           (snd (from_db_file example_lib ''db.json'' example_world))
             \<lparr>files := (files (snd (from_db_file example_lib ''db.json'' example_world)))
                (json_name (map upper (sort flat)) ''BCC_B2'' ''CPM_FORM'' \<mapsto> Json ds)\<rparr>"
    from fl have flat: "flat = [''Ni'', ''Al'']"
      by (simp add: example_lib_def)
    have name: "json_name (map upper (sort [''Ni'', ''Al''])) ''BCC_B2'' ''CPM_FORM'' =
                ''AL-NI-BCC_B2-CPM_FORM-DFTTK.json''"
      by code_simp
    have "files (snd (from_db_file example_lib ''db.json'' example_world)) = Map.empty"
      by (simp add: example_lib_def example_world_def)
    with w2 [OF refl] flat name
    have "files (snd ?run) = [''AL-NI-BCC_B2-CPM_FORM-DFTTK.json'' \<mapsto> Json ds]"
      by simp
    then show ?thesis by simp
  qed
  from r cpm hm sm d show ?thesis by (intro conjI)
qed

section \<open>Exceptions\<close>











end
